theory Spec2Isabelle
  imports Main
begin

section \<open>Values read from a package manifest\<close>

text \<open>
  The source types a manifest as \<open>any\<close> and tests most of its fields only for
  truthiness, so the fields are kept as parsed JSON values. \<open>JUndefined\<close> stands
  for a property that is absent. The association list of a \<open>JObj\<close> has distinct keys,
  as a parsed object has.
\<close>

datatype json =
    JUndefined
  | JNull
  | JBool bool
  | JNum int
  | JStr string
  | JArr "json list"
  | JObj "(string \<times> json) list"

text \<open>JavaScript truthiness of a JSON value: what \<open>if (v)\<close> and \<open>!v\<close> test.\<close>

fun truthy :: "json \<Rightarrow> bool" where
  "truthy JUndefined = False"
| "truthy JNull = False"
| "truthy (JBool b) = b"
| "truthy (JNum n) = (n \<noteq> 0)"
| "truthy (JStr s) = (s \<noteq> [])"
| "truthy (JArr xs) = True"
| "truthy (JObj kvs) = True"

text \<open>
  \<open>isObject\<close> of the source compares \<open>Object.prototype.toString.call(value)\<close> with
  \<open>[object Object]\<close>: true of plain objects only (an array gives \<open>[object Array]\<close>).
\<close>

fun isObject :: "json \<Rightarrow> bool" where
  "isObject (JObj kvs) = True"
| "isObject v = False"

fun isArray :: "json \<Rightarrow> bool" where
  "isArray (JArr xs) = True"
| "isArray v = False"

text \<open>
  What a property read \<open>v?.[key]\<close> can give: a JSON value, or a function or object of
  the platform that the value inherits from a prototype, named here by the prototype
  and the key under which it was found. The values of the platform are truthy.
\<close>

datatype proto =
    ObjectPrototype
  | ArrayPrototype
  | StringPrototype
  | NumberPrototype
  | BooleanPrototype

datatype jsval = JsonVal json | PlatformVal proto string

fun truthyVal :: "jsval \<Rightarrow> bool" where
  "truthyVal (JsonVal v) = truthy v"
| "truthyVal (PlatformVal p key) = True"

text \<open>Truthiness of a \<open>string | undefined\<close> value: the empty string is falsy.\<close>

fun truthyStr :: "string option \<Rightarrow> bool" where
  "truthyStr None = False"
| "truthyStr (Some s) = (s \<noteq> [])"

text \<open>How a template literal prints a \<open>string | undefined\<close> value.\<close>

fun templateStr :: "string option \<Rightarrow> string" where
  "templateStr None = ''undefined''"
| "templateStr (Some s) = s"

section \<open>Data model\<close>

text \<open>The manifest fields that the two functions read (\<open>data\<close> of a package).\<close>

record manifest =
  name :: "string option"
  exports :: json
  browser :: json
  peerDependencies :: json
  peerDependenciesMeta :: json
  moduleType :: json

text \<open>
  \<open>PackageData\<close>: the directory, the manifest and the side-effects predicate. The
  memo tables that the source keeps on the same object live in the state, under the
  package's directory.
\<close>

record packageData =
  dir :: string
  data :: manifest
  hasSideEffects :: "string \<Rightarrow> bool"

text \<open>
  The resolve options. Flags that the source reads only for their truthiness are
  booleans; \<open>packageCache\<close> is inside the lookup functions of the environment. The
  two lists of \<open>ssrConfig?.optimizeDeps\<close> are the last two fields.
\<close>

record options =
  root :: string
  dedupe :: "string list option"
  isBuild :: bool
  preserveSymlinks :: bool
  tryEsmOnly :: bool
  isRequire :: bool
  mainFields :: "string list"
  extensions :: "string list"
  browserField :: bool
  idOnly :: bool
  scan :: bool
  ssrOptimizeCheck :: bool
  ssrOptimizeDepsExclude :: "string list option"
  ssrOptimizeDepsInclude :: "string list option"

text \<open>
  \<open>PartialResolvedId\<close>. The field \<open>id\<close> is \<open>moduleId\<close> here, and the parameter
  \<open>id\<close> of the two functions is \<open>ident\<close>, since \<open>id\<close> is the identity function of
  HOL. \<open>external\<close> is true exactly when the property is set.
\<close>

record partialResolvedId =
  moduleId :: string
  moduleSideEffects :: "bool option"
  external :: bool

text \<open>
  The pre-bundling coordinator, as far as \<open>tryNodeResolve\<close> reads it:
  \<open>options.exclude\<close>, \<open>options.include\<close>, \<open>metadata.browserHash\<close> and the two
  methods.
\<close>

record depsOptimizer =
  optimizerExclude :: "string list option"
  optimizerInclude :: "string list option"
  browserHash :: "string option"
  registerMissingImport :: "string \<Rightarrow> string \<Rightarrow> string"
  getOptimizedDepId :: "string \<Rightarrow> string"

datatype error = Error string

text \<open>What \<open>mapWithBrowserField\<close> returns: a string, \<open>false\<close> or \<open>undefined\<close>.\<close>

datatype browserMapped = BrString string | BrFalse | BrUndefined

section \<open>State: the memo tables and a trace of the calls made\<close>

record pkgCache =
  webResolvedImports :: "string \<rightharpoonup> string"
  nodeResolvedImports :: "string \<rightharpoonup> string"

text \<open>
  The trace records each call that leaves the two functions for the filesystem, the
  exports resolver, the browser-field mapper, the package lookup or the coordinator.
\<close>

datatype event =
    ExistsSync string
  | ResolvePackageData string string
  | ResolveExportsOrImports string
  | MapWithBrowserField string
  | TryFsResolve string bool
  | RegisterMissingImport string string

record state =
  caches :: "string \<Rightarrow> pkgCache"
  trace :: "event list"

definition logEvent :: "event \<Rightarrow> state \<Rightarrow> state" where
  "logEvent e s = s\<lparr>trace := trace s @ [e]\<rparr>"

text \<open>
  Modelled from the spec: \<open>getResolvedCache\<close> and \<open>setResolvedCache\<close> are attached
  to the package object by the package loader, which is not among the sources. The
  resolution cache is keyed by package, subpath and target; the source itself writes
  \<open>webResolvedImports[id]\<close> for the web target.
\<close>

definition getResolvedCache :: "packageData \<Rightarrow> state \<Rightarrow> string \<Rightarrow> bool \<Rightarrow> string option" where
  "getResolvedCache pkg s key targetWeb =
     (if targetWeb then webResolvedImports (caches s (dir pkg)) key
      else nodeResolvedImports (caches s (dir pkg)) key)"

definition setResolvedCache :: "packageData \<Rightarrow> string \<Rightarrow> string \<Rightarrow> bool \<Rightarrow> state \<Rightarrow> state" where
  "setResolvedCache pkg key entry targetWeb s =
     (let c = caches s (dir pkg) in
      s\<lparr>caches := (caches s)(dir pkg :=
          (if targetWeb then c\<lparr>webResolvedImports := (webResolvedImports c)(key \<mapsto> entry)\<rparr>
           else c\<lparr>nodeResolvedImports := (nodeResolvedImports c)(key \<mapsto> entry)\<rparr>))\<rparr>)"

section \<open>The environment: code and platform functions outside the sources\<close>

text \<open>
  The functions of \<open>node:path\<close> and \<open>node:fs\<close>, the constants and the helpers that
  the two functions call but that are not among the sources are parameters.
\<close>

record env =
  builtinModules :: "string list"
  DEFAULT_MAIN_FIELDS :: "string list"
  pathJoin :: "string \<Rightarrow> string \<Rightarrow> string"
  pathDirname :: "string \<Rightarrow> string"
  pathIsAbsolute :: "string \<Rightarrow> bool"
  pathExtname :: "string \<Rightarrow> string"
  existsSync :: "string \<Rightarrow> bool"
  splitFileAndPostfix :: "string \<Rightarrow> string \<times> string"
  resolveExportsOrImports :: "manifest \<Rightarrow> string \<Rightarrow> options \<Rightarrow> bool \<Rightarrow> error + string option"
  mapWithBrowserField :: "string \<Rightarrow> json \<Rightarrow> browserMapped"
  tryFsResolve :: "string \<Rightarrow> options \<Rightarrow> bool \<Rightarrow> bool \<Rightarrow> string option"
  resolvePackageData :: "string \<Rightarrow> string \<Rightarrow> bool \<Rightarrow> packageData option"
  findNearestMainPackageData :: "string \<Rightarrow> packageData option"
  findNearestPackageData :: "string \<Rightarrow> packageData option"
  resolvePackageEntry ::
    "string \<Rightarrow> packageData \<Rightarrow> bool \<Rightarrow> options \<Rightarrow> state \<Rightarrow> (error + string option) \<times> state"
  isInNodeModules :: "string \<Rightarrow> bool"
  isOptimizable :: "string \<Rightarrow> depsOptimizer \<Rightarrow> bool"
  OPTIMIZABLE_ENTRY_RE :: "string \<Rightarrow> bool"
  SPECIAL_QUERY_RE :: "string \<Rightarrow> bool"
  injectQuery :: "string \<Rightarrow> string \<Rightarrow> string"
  prototypeKeys :: "proto \<Rightarrow> string list"
  platformGet :: "proto \<Rightarrow> string \<Rightarrow> string \<Rightarrow> jsval"

text \<open>
  \<open>prototypeKeys\<close> gives the names of the properties of the platform's prototypes,
  and \<open>platformGet p k key\<close> the property \<open>key\<close> of the value found under \<open>k\<close> on
  the prototype \<open>p\<close>.
\<close>

section \<open>Property reads\<close>

text \<open>
  An array index as a property name: the decimal digits of a number, without leading
  zero.
\<close>

definition isDigit :: "char \<Rightarrow> bool" where
  "isDigit c = (c \<in> set ''0123456789'')"

definition arrayIndex :: "string \<Rightarrow> nat option" where
  "arrayIndex key =
     (if key \<noteq> [] \<and> list_all isDigit key \<and> (key = ''0'' \<or> take 1 key \<noteq> ''0'')
      then Some (foldl (\<lambda>n c. 10 * n + (of_char c - 48)) 0 key)
      else None)"

text \<open>The first prototype of the chain that has the key, if any.\<close>

definition inherited :: "env \<Rightarrow> proto list \<Rightarrow> string \<Rightarrow> jsval" where
  "inherited env chain key =
     (case filter (\<lambda>p. key \<in> set (prototypeKeys env p)) chain of
        [] \<Rightarrow> JsonVal JUndefined
      | p # ps \<Rightarrow> PlatformVal p key)"

text \<open>
  The read \<open>v?.[key]\<close> on a JSON value: \<open>undefined\<close> on \<open>undefined\<close> and \<open>null\<close>;
  otherwise the own property (an entry of an object, the length and the elements of an
  array, the length and the characters of a string), and where there is none the
  property inherited along the prototype chain of the value.
\<close>

fun getProp :: "env \<Rightarrow> json \<Rightarrow> string \<Rightarrow> jsval" where
  "getProp env JUndefined key = JsonVal JUndefined"
| "getProp env JNull key = JsonVal JUndefined"
| "getProp env (JObj kvs) key =
     (case map_of kvs key of
        Some v \<Rightarrow> JsonVal v
      | None \<Rightarrow> inherited env [ObjectPrototype] key)"
| "getProp env (JArr xs) key =
     (if key = ''length'' then JsonVal (JNum (int (length xs)))
      else
        (case arrayIndex key of
           Some i \<Rightarrow>
             if i < length xs then JsonVal (xs ! i)
             else inherited env [ArrayPrototype, ObjectPrototype] key
         | None \<Rightarrow> inherited env [ArrayPrototype, ObjectPrototype] key))"
| "getProp env (JStr str) key =
     (if key = ''length'' then JsonVal (JNum (int (length str)))
      else
        (case arrayIndex key of
           Some i \<Rightarrow>
             if i < length str then JsonVal (JStr [str ! i])
             else inherited env [StringPrototype, ObjectPrototype] key
         | None \<Rightarrow> inherited env [StringPrototype, ObjectPrototype] key))"
| "getProp env (JNum n) key = inherited env [NumberPrototype, ObjectPrototype] key"
| "getProp env (JBool b) key = inherited env [BooleanPrototype, ObjectPrototype] key"

text \<open>The read \<open>v?.[key]\<close> on what an earlier read gave.\<close>

fun getPropVal :: "env \<Rightarrow> jsval \<Rightarrow> string \<Rightarrow> jsval" where
  "getPropVal env (JsonVal v) key = getProp env v key"
| "getPropVal env (PlatformVal p k) key = platformGet env p k key"

section \<open>resolveDeepImport\<close>

definition browserExternalId :: string where
  "browserExternalId = ''__vite-browser-external''"

text \<open>
  The error of the \<open>throw\<close>: the template prints \<open>relativeId\<close> between single quotes
  and the manifest path after the fixed text.
\<close>

definition subpathNotDefined :: "env \<Rightarrow> string option \<Rightarrow> packageData \<Rightarrow> error" where
  "subpathNotDefined env relativeId pkg =
     Error (''Package subpath '' @ [CHR 0x27] @ templateStr relativeId @ [CHR 0x27]
            @ '' is not defined by '' @ [CHR 0x22] @ ''exports'' @ [CHR 0x22] @ '' in ''
            @ pathJoin env (dir pkg) ''package.json'' @ ''.'')"

text \<open>
  The last block, \<open>if (relativeId) { ... }\<close>: the filesystem lookup of the joined path,
  with the index fallback only when there is no exports field, and the cache write on a hit.
\<close>

definition resolveRelativeId ::
  "env \<Rightarrow> string \<Rightarrow> packageData \<Rightarrow> bool \<Rightarrow> options \<Rightarrow> string option \<Rightarrow> state
     \<Rightarrow> (error + string option) \<times> state" where
  "resolveRelativeId env ident pkg targetWeb opts relativeId s =
     (case relativeId of
        None \<Rightarrow> (Inr None, s)
      | Some rel \<Rightarrow>
          if rel = [] then (Inr None, s)
          else
            (let p = pathJoin env (dir pkg) rel;
                 tryIndex = (\<not> truthy (exports (data pkg)));
                 s1 = logEvent (TryFsResolve p tryIndex) s;
                 resolved = tryFsResolve env p opts tryIndex targetWeb
             in if truthyStr resolved
                then (Inr resolved, setResolvedCache pkg ident (the resolved) targetWeb s1)
                else (Inr None, s1)))"

definition resolveDeepImport ::
  "env \<Rightarrow> string \<Rightarrow> packageData \<Rightarrow> bool \<Rightarrow> options \<Rightarrow> state
     \<Rightarrow> (error + string option) \<times> state" where
  "resolveDeepImport env ident pkg targetWeb opts s =
     (let cache = getResolvedCache pkg s ident targetWeb in
      if truthyStr cache then (Inr cache, s)
      else
        (let exportsField = exports (data pkg);
             browserFieldValue = browser (data pkg)
         in
         if truthy exportsField then
           (if isObject exportsField \<and> \<not> isArray exportsField then
              (let (file, postfix) = splitFileAndPostfix env ident;
                   s1 = logEvent (ResolveExportsOrImports file) s
               in case resolveExportsOrImports env (data pkg) file opts targetWeb of
                    Inl e \<Rightarrow> (Inl e, s1)
                  | Inr exportsId \<Rightarrow>
                      (let relativeId = (case exportsId of
                                           Some x \<Rightarrow> Some (x @ postfix)
                                         | None \<Rightarrow> None)
                       in if \<not> truthyStr relativeId
                          then (Inl (subpathNotDefined env relativeId pkg), s1)
                          else resolveRelativeId env ident pkg targetWeb opts relativeId s1))
            else (Inl (subpathNotDefined env None pkg), s))
         else if targetWeb \<and> browserField opts \<and> isObject browserFieldValue then
           (let (file, postfix) = splitFileAndPostfix env ident;
                s1 = logEvent (MapWithBrowserField file) s
            in case mapWithBrowserField env file browserFieldValue of
                 BrString m \<Rightarrow>
                   if m \<noteq> [] then resolveRelativeId env ident pkg targetWeb opts (Some (m @ postfix)) s1
                   else resolveRelativeId env ident pkg targetWeb opts (Some ident) s1
               | BrFalse \<Rightarrow>
                   (let c = caches s1 (dir pkg) in
                    (Inr (Some browserExternalId),
                     s1\<lparr>caches := (caches s1)(dir pkg :=
                          c\<lparr>webResolvedImports := (webResolvedImports c)(ident \<mapsto> browserExternalId)\<rparr>)\<rparr>))
               | BrUndefined \<Rightarrow> resolveRelativeId env ident pkg targetWeb opts (Some ident) s1)
         else resolveRelativeId env ident pkg targetWeb opts (Some ident) s))"

section \<open>Helpers of tryNodeResolve that are in the sources\<close>

definition DEFAULT_EXTENSIONS :: "string list" where
  "DEFAULT_EXTENSIONS = [''.mjs'', ''.js'', ''.mts'', ''.ts'', ''.jsx'', ''.tsx'', ''.json'']"

text \<open>
  The set \<open>builtins\<close>: the platform's \<open>builtinModules\<close> and the listed names.
\<close>

definition builtins :: "env \<Rightarrow> string list" where
  "builtins env = builtinModules env @
     [''assert/strict'', ''diagnostics_channel'', ''dns/promises'', ''fs/promises'',
      ''path/posix'', ''path/win32'', ''readline/promises'', ''stream/consumers'',
      ''stream/promises'', ''stream/web'', ''timers/promises'', ''util/types'', ''wasi'']"

definition NODE_BUILTIN_NAMESPACE :: string where
  "NODE_BUILTIN_NAMESPACE = ''node:''"

definition startsWith :: "string \<Rightarrow> string \<Rightarrow> bool" where
  "startsWith s p = (take (length p) s = p)"

definition isBuiltin :: "env \<Rightarrow> string \<Rightarrow> bool" where
  "isBuiltin env ident =
     ((if startsWith ident NODE_BUILTIN_NAMESPACE
       then drop (length NODE_BUILTIN_NAMESPACE) ident else ident) \<in> set (builtins env))"

text \<open>
  \<open>cleanUrl\<close> removes the match of \<open>/[?#].*$/s\<close>: everything from the first
  \<open>?\<close> or \<open>#\<close> on.
\<close>

definition cleanUrl :: "string \<Rightarrow> string" where
  "cleanUrl url = takeWhile (\<lambda>c. c \<noteq> CHR ''?'' \<and> c \<noteq> CHR ''#'') url"

text \<open>
  \<open>deepImportRE\<close> is \<open>/^([^@][^/]*)\/|^(@[^/]+\/[^/]+)\//\<close>. The function gives
  \<open>deepMatch[1] || deepMatch[2]\<close> when the expression matches and \<open>None\<close> when it
  does not. First alternative: a first character other than \<open>@\<close>, then the characters
  up to the next slash, which must exist. Second alternative: \<open>@\<close>, a non-empty scope,
  a slash, a non-empty name, a slash.
\<close>

definition notSlash :: "char \<Rightarrow> bool" where
  "notSlash c = (c \<noteq> CHR ''/'')"

definition deepImportRE :: "string \<Rightarrow> string option" where
  "deepImportRE ident =
     (case ident of
        [] \<Rightarrow> None
      | c # cs \<Rightarrow>
          if c \<noteq> CHR ''@'' then
            (if dropWhile notSlash cs \<noteq> [] then Some (c # takeWhile notSlash cs) else None)
          else
            (let scope = takeWhile notSlash cs; rest = dropWhile notSlash cs in
             if scope = [] \<or> rest = [] then None
             else
               (let pname = takeWhile notSlash (tl rest); rest2 = dropWhile notSlash (tl rest) in
                if pname = [] \<or> rest2 = [] then None
                else Some (c # scope @ CHR ''/'' # pname))))"

text \<open>
  \<open>bareImportRE\<close> is \<open>/^[\w@](?!.*:\/\/)/\<close>: the first character is a word
  character or \<open>@\<close>, and no \<open>://\<close> follows on the same line (the dot does not match a
  line terminator; of these, a \<open>char\<close> string has line feed and carriage return).
\<close>

definition isWordChar :: "char \<Rightarrow> bool" where
  "isWordChar c =
     (c \<in> set ''abcdefghijklmnopqrstuvwxyzABCDEFGHIJKLMNOPQRSTUVWXYZ0123456789_'')"

fun schemeAhead :: "string \<Rightarrow> bool" where
  "schemeAhead [] = False"
| "schemeAhead (c # cs) =
     (take 3 (c # cs) = ''://'' \<or> (c \<noteq> CHR 0x0A \<and> c \<noteq> CHR 0x0D \<and> schemeAhead cs))"

definition bareImportRE :: "string \<Rightarrow> bool" where
  "bareImportRE ident =
     (case ident of [] \<Rightarrow> False
      | c # cs \<Rightarrow> (isWordChar c \<or> c = CHR ''@'') \<and> \<not> schemeAhead cs)"

definition optionalPeerDepId :: string where
  "optionalPeerDepId = ''__vite-optional-peer-dep''"

text \<open>\<open>s.indexOf(pat)\<close> (-1 when absent) and \<open>s.slice(i)\<close> (a negative \<open>i\<close> counts from the end).\<close>

fun indexOfFrom :: "string \<Rightarrow> string \<Rightarrow> nat \<Rightarrow> int" where
  "indexOfFrom [] pat n = (if pat = [] then int n else - 1)"
| "indexOfFrom (c # cs) pat n =
     (if take (length pat) (c # cs) = pat then int n else indexOfFrom cs pat (Suc n))"

definition indexOf :: "string \<Rightarrow> string \<Rightarrow> int" where
  "indexOf s pat = indexOfFrom s pat 0"

definition sliceFrom :: "string \<Rightarrow> int \<Rightarrow> string" where
  "sliceFrom s i = (if i < 0 then drop (nat (int (length s) + i)) s else drop (nat i) s)"

text \<open>\<open>xs?.includes(x)\<close>, read for its truthiness.\<close>

definition includesOpt :: "string list option \<Rightarrow> string \<Rightarrow> bool" where
  "includesOpt xs x = (case xs of None \<Rightarrow> False | Some l \<Rightarrow> x \<in> set l)"

section \<open>tryNodeResolve\<close>

text \<open>\<open>pkgId\<close>: \<open>deepMatch ? deepMatch[1] || deepMatch[2] : id\<close>.\<close>

definition pkgIdOf :: "string \<Rightarrow> string" where
  "pkgIdOf ident = (case deepImportRE ident of Some m \<Rightarrow> m | None \<Rightarrow> ident)"

text \<open>Whether \<open>deepMatch\<close> is set, and \<open>unresolvedId\<close>.\<close>

definition isDeepImport :: "string \<Rightarrow> bool" where
  "isDeepImport ident = (deepImportRE ident \<noteq> None)"

definition unresolvedIdOf :: "string \<Rightarrow> string" where
  "unresolvedIdOf ident =
     (if isDeepImport ident then ''.'' @ drop (length (pkgIdOf ident)) ident
      else pkgIdOf ident)"

text \<open>
  The choice of \<open>basedir\<close>. The importer is \<open>string | null | undefined\<close>; it is truthy
  when it is a non-empty string. \<open>fs.existsSync\<close> is reached only when the last
  character of the importer is not \<open>*\<close>.
\<close>

definition chooseBasedir ::
  "env \<Rightarrow> string \<Rightarrow> string option \<Rightarrow> options \<Rightarrow> state \<Rightarrow> string \<times> state" where
  "chooseBasedir env pkgId importer opts s =
     (if includesOpt (dedupe opts) pkgId then (root opts, s)
      else
        (case importer of
           None \<Rightarrow> (root opts, s)
         | Some imp \<Rightarrow>
             if imp \<noteq> [] \<and> pathIsAbsolute env imp then
               (if last imp = CHR ''*'' then (pathDirname env imp, s)
                else
                  (let s1 = logEvent (ExistsSync (cleanUrl imp)) s in
                   if existsSync env (cleanUrl imp) then (pathDirname env imp, s1)
                   else (root opts, s1)))
             else (root opts, s)))"

text \<open>The branch \<open>if (!pkg) { ... return }\<close>: the optional peer dependency, or nothing.\<close>

definition plainId :: "string \<Rightarrow> partialResolvedId" where
  "plainId i = \<lparr>moduleId = i, moduleSideEffects = None, external = False\<rparr>"

definition resolveOptionalPeerDep ::
  "env \<Rightarrow> string \<Rightarrow> string \<Rightarrow> options \<Rightarrow> partialResolvedId option" where
  "resolveOptionalPeerDep env ident basedir opts =
     (if basedir \<noteq> root opts \<and> \<not> isBuiltin env ident \<and> CHR 0x00 \<notin> set ident
         \<and> bareImportRE ident then
        (case findNearestMainPackageData env basedir of
           None \<Rightarrow> None
         | Some mp \<Rightarrow>
             (let mainPkg = data mp in
              if truthyVal (getProp env (peerDependencies mainPkg) ident)
                 \<and> truthyVal (getPropVal env
                                (getProp env (peerDependenciesMeta mainPkg) ident) ''optional'')
              then Some (plainId (optionalPeerDepId @ '':'' @ ident @ '':''
                                  @ templateStr (name mainPkg)))
              else None))
      else None)"

text \<open>
  \<open>resolveId\<close> is \<open>resolveDeepImport\<close> for a deep import and \<open>resolvePackageEntry\<close>
  otherwise. The \<open>try\<close> block and the retry: an error of the first call is thrown again
  only when \<open>tryEsmOnly\<close> is off; otherwise \<open>resolved\<close> stays undefined and the call is
  made once more with the changed options.
\<close>

definition resolveId ::
  "env \<Rightarrow> bool \<Rightarrow> string \<Rightarrow> packageData \<Rightarrow> bool \<Rightarrow> options \<Rightarrow> state
     \<Rightarrow> (error + string option) \<times> state" where
  "resolveId env deep = (if deep then resolveDeepImport env else resolvePackageEntry env)"

definition retryOptions :: "env \<Rightarrow> options \<Rightarrow> options" where
  "retryOptions env opts =
     opts\<lparr>isRequire := False, mainFields := DEFAULT_MAIN_FIELDS env,
          extensions := DEFAULT_EXTENSIONS\<rparr>"

definition resolveWithRetry ::
  "env \<Rightarrow> bool \<Rightarrow> string \<Rightarrow> packageData \<Rightarrow> bool \<Rightarrow> options \<Rightarrow> state
     \<Rightarrow> (error + string option) \<times> state" where
  "resolveWithRetry env deep unresolvedId pkg targetWeb opts s =
     (case resolveId env deep unresolvedId pkg targetWeb opts s of
        (Inl err, s1) \<Rightarrow>
          if \<not> tryEsmOnly opts then (Inl err, s1)
          else resolveId env deep unresolvedId pkg targetWeb (retryOptions env opts) s1
      | (Inr resolved, s1) \<Rightarrow>
          if \<not> truthyStr resolved \<and> tryEsmOnly opts
          then resolveId env deep unresolvedId pkg targetWeb (retryOptions env opts) s1
          else (Inr resolved, s1))"

text \<open>
  \<open>processResult\<close>, with the variables it closes over (\<open>id\<close>, \<open>deepMatch\<close>, \<open>pkg\<close>,
  \<open>externalize\<close>, \<open>allowLinkedExternal\<close>) as parameters.
\<close>

definition processResult ::
  "env \<Rightarrow> string \<Rightarrow> bool \<Rightarrow> packageData \<Rightarrow> bool \<Rightarrow> bool \<Rightarrow> partialResolvedId
     \<Rightarrow> partialResolvedId" where
  "processResult env ident deep pkg externalize allowLinkedExternal resolved =
     (if \<not> externalize then resolved
      else if \<not> allowLinkedExternal \<and> \<not> isInNodeModules env (moduleId resolved) then resolved
      else
        (let resolvedExt = pathExtname env (moduleId resolved) in
         if resolvedExt \<noteq> [] \<and> resolvedExt \<noteq> ''.js'' \<and> resolvedExt \<noteq> ''.mjs''
            \<and> resolvedExt \<noteq> ''.cjs''
         then resolved
         else
           (let resolvedId =
                  (if deep \<and> \<not> truthy (exports (data pkg)) \<and> pathExtname env ident \<noteq> resolvedExt
                   then sliceFrom (moduleId resolved) (indexOf (moduleId resolved) ident)
                   else ident)
            in resolved\<lparr>moduleId := resolvedId, external := True\<rparr>)))"

text \<open>
  The part after the call of \<open>processResult\<close>, in three definitions: the constants
  \<open>isJsType\<close> and \<open>skipOptimization\<close> of the source, and the statements around them
  (the plain result, the optimize check and the registration with the coordinator).
  Where the source writes \<open>depsOptimizer!\<close> the coordinator is present, by the test
  before it; the model gives an error in the branch that cannot be reached.
\<close>

definition isJsType :: "env \<Rightarrow> depsOptimizer option \<Rightarrow> string \<Rightarrow> bool" where
  "isJsType env depsOpt resolved =
     (case depsOpt of
        Some d \<Rightarrow> isOptimizable env resolved d
      | None \<Rightarrow> OPTIMIZABLE_ENTRY_RE env resolved)"

definition skipOptimization ::
  "env \<Rightarrow> string \<Rightarrow> string option \<Rightarrow> options \<Rightarrow> depsOptimizer option \<Rightarrow> bool
     \<Rightarrow> string \<Rightarrow> string \<Rightarrow> bool" where
  "skipOptimization env ident importer opts depsOpt ssr pkgId resolved =
     (let ext = pathExtname env resolved;
          exclude = (if ssrOptimizeCheck opts then ssrOptimizeDepsExclude opts
                     else (case depsOpt of Some d \<Rightarrow> optimizerExclude d | None \<Rightarrow> None));
          include = (if ssrOptimizeCheck opts then ssrOptimizeDepsInclude opts
                     else (case depsOpt of Some d \<Rightarrow> optimizerInclude d | None \<Rightarrow> None))
      in
        \<not> isJsType env depsOpt resolved
        \<or> (case importer of None \<Rightarrow> False
            | Some imp \<Rightarrow> imp \<noteq> [] \<and> isInNodeModules env imp)
        \<or> includesOpt exclude pkgId
        \<or> includesOpt exclude ident
        \<or> SPECIAL_QUERY_RE env resolved
        \<or> (\<not> ssrOptimizeCheck opts \<and> \<not> isBuild opts \<and> ssr)
        \<or> (ssr
            \<and> \<not> (ext = ''.cjs''
                 \<or> (ext = ''.js''
                     \<and> (case findNearestPackageData env (pathDirname env resolved) of
                           None \<Rightarrow> True
                         | Some p \<Rightarrow> moduleType (data p) \<noteq> JStr ''module'')))
            \<and> \<not> (includesOpt include pkgId \<or> includesOpt include ident)))"

definition optimizeResolved ::
  "env \<Rightarrow> string \<Rightarrow> string option \<Rightarrow> options \<Rightarrow> depsOptimizer option \<Rightarrow> bool
     \<Rightarrow> string \<Rightarrow> packageData \<Rightarrow> string \<Rightarrow> state
     \<Rightarrow> (error + partialResolvedId option) \<times> state" where
  "optimizeResolved env ident importer opts depsOpt ssr pkgId pkg resolved s =
     (if \<not> ssrOptimizeCheck opts
         \<and> (\<not> isInNodeModules env resolved \<or> depsOpt = None \<or> scan opts)
      then (Inr (Some (plainId resolved)), s)
      else if ssrOptimizeCheck opts then
        (Inr (Some (plainId
                 (if skipOptimization env ident importer opts depsOpt ssr pkgId resolved
                  then injectQuery env resolved ''__vite_skip_optimization''
                  else resolved))), s)
      else
        (case depsOpt of
           None \<Rightarrow> (Inl (Error ''TypeError''), s)
         | Some d \<Rightarrow>
             (let (resolved2, s2) =
                    (if skipOptimization env ident importer opts depsOpt ssr pkgId resolved then
                       ((if \<not> isBuild opts \<and> truthyStr (browserHash d)
                            \<and> isJsType env depsOpt resolved
                         then injectQuery env resolved (''v='' @ the (browserHash d))
                         else resolved), s)
                     else
                       (getOptimizedDepId d (registerMissingImport d ident resolved),
                        logEvent (RegisterMissingImport ident resolved) s))
              in
              if \<not> idOnly opts \<and> \<not> scan opts \<and> isBuild opts then
                (Inr (Some \<lparr>moduleId = resolved2,
                            moduleSideEffects = Some (hasSideEffects pkg resolved2),
                            external = False\<rparr>), s2)
              else (Inr (Some (plainId resolved2)), s2))))"

text \<open>
  The rest of the function once \<open>resolved\<close> is set: the call of \<open>processResult\<close> for
  a build without coordinator or when externalizing, the part above otherwise.
\<close>

definition finishResolve ::
  "env \<Rightarrow> string \<Rightarrow> string option \<Rightarrow> options \<Rightarrow> depsOptimizer option \<Rightarrow> bool \<Rightarrow> bool \<Rightarrow> bool
     \<Rightarrow> bool \<Rightarrow> string \<Rightarrow> packageData \<Rightarrow> string \<Rightarrow> state
     \<Rightarrow> (error + partialResolvedId option) \<times> state" where
  "finishResolve env ident importer opts depsOpt ssr externalize allowLinkedExternal
       deep pkgId pkg resolved s =
     (if \<not> idOnly opts \<and> ((\<not> scan opts \<and> isBuild opts \<and> depsOpt = None) \<or> externalize) then
        (Inr (Some (processResult env ident deep pkg externalize allowLinkedExternal
                      \<lparr>moduleId = resolved,
                       moduleSideEffects = Some (hasSideEffects pkg resolved),
                       external = False\<rparr>)), s)
      else optimizeResolved env ident importer opts depsOpt ssr pkgId pkg resolved s)"

text \<open>
  From the package lookup on: the lookup from \<open>basedir\<close>, the not-found branch, the
  resolution with its retry, and the shaping of the result.
\<close>

definition resolveFromBasedir ::
  "env \<Rightarrow> string \<Rightarrow> string option \<Rightarrow> options \<Rightarrow> bool \<Rightarrow> depsOptimizer option \<Rightarrow> bool \<Rightarrow> bool
     \<Rightarrow> bool \<Rightarrow> string \<Rightarrow> state \<Rightarrow> (error + partialResolvedId option) \<times> state" where
  "resolveFromBasedir env ident importer opts targetWeb depsOpt ssr externalize
       allowLinkedExternal basedir s =
     (let pkgId = pkgIdOf ident;
          s1 = logEvent (ResolvePackageData pkgId basedir) s
      in case resolvePackageData env pkgId basedir (preserveSymlinks opts) of
           None \<Rightarrow> (Inr (resolveOptionalPeerDep env ident basedir opts), s1)
         | Some pkg \<Rightarrow>
             (case resolveWithRetry env (isDeepImport ident) (unresolvedIdOf ident) pkg
                     targetWeb opts s1 of
                (Inl err, s2) \<Rightarrow> (Inl err, s2)
              | (Inr resolved, s2) \<Rightarrow>
                  if \<not> truthyStr resolved then (Inr None, s2)
                  else finishResolve env ident importer opts depsOpt ssr externalize
                         allowLinkedExternal (isDeepImport ident) pkgId pkg
                         (the resolved) s2))"

definition tryNodeResolve ::
  "env \<Rightarrow> string \<Rightarrow> string option \<Rightarrow> options \<Rightarrow> bool \<Rightarrow> depsOptimizer option \<Rightarrow> bool \<Rightarrow> bool
     \<Rightarrow> bool \<Rightarrow> state \<Rightarrow> (error + partialResolvedId option) \<times> state" where
  "tryNodeResolve env ident importer opts targetWeb depsOpt ssr externalize
       allowLinkedExternal s =
     (case chooseBasedir env (pkgIdOf ident) importer opts s of
        (basedir, s1) \<Rightarrow>
          resolveFromBasedir env ident importer opts targetWeb depsOpt ssr externalize
            allowLinkedExternal basedir s1)"

section \<open>An example environment\<close>

text \<open>
  A small POSIX world to run the two functions in: path functions for absolute paths
  in normal form, a filesystem given by the list of its files, and simple versions of
  the helpers that are not among the sources. The theorems below hold for every
  environment; this one instantiates them.
\<close>

fun splitOn :: "char \<Rightarrow> string \<Rightarrow> string list" where
  "splitOn d [] = [[]]"
| "splitOn d (c # cs) =
     (if c = d then [] # splitOn d cs
      else (case splitOn d cs of [] \<Rightarrow> [[c]] | w # ws \<Rightarrow> (c # w) # ws))"

fun normSegs :: "string list \<Rightarrow> string list \<Rightarrow> string list" where
  "normSegs acc [] = rev acc"
| "normSegs acc (x # xs) =
     (if x = [] \<or> x = ''.'' then normSegs acc xs
      else if x = ''..'' then normSegs (tl acc) xs
      else normSegs (x # acc) xs)"

definition segments :: "string \<Rightarrow> string list" where
  "segments p = normSegs [] (splitOn (CHR ''/'') p)"

definition joinSegs :: "string list \<Rightarrow> string" where
  "joinSegs segs = concat (map (\<lambda>x. CHR ''/'' # x) segs)"

definition posixJoin :: "string \<Rightarrow> string \<Rightarrow> string" where
  "posixJoin a b =
     (let segs = segments (a @ ''/'' @ b) in if segs = [] then ''/'' else joinSegs segs)"

definition posixDirname :: "string \<Rightarrow> string" where
  "posixDirname p =
     (let segs = segments p in if length segs \<le> 1 then ''/'' else joinSegs (butlast segs))"

definition posixIsAbsolute :: "string \<Rightarrow> bool" where
  "posixIsAbsolute p = (case p of [] \<Rightarrow> False | c # cs \<Rightarrow> c = CHR ''/'')"

definition posixExtname :: "string \<Rightarrow> string" where
  "posixExtname p =
     (let base = rev (takeWhile notSlash (rev p));
          e = rev (takeWhile (\<lambda>c. c \<noteq> CHR ''.'') (rev base))
      in if CHR ''.'' \<notin> set base \<or> base = ''..'' \<or> Suc (length e) = length base then []
         else CHR ''.'' # e)"

definition ancestorDirs :: "string \<Rightarrow> string list" where
  "ancestorDirs p =
     (let segs = segments p in map (\<lambda>k. joinSegs (take k segs)) (rev [0..<Suc (length segs)]))"

definition firstSome :: "('a \<Rightarrow> 'b option) \<Rightarrow> 'a list \<Rightarrow> 'b option" where
  "firstSome f xs = (case List.map_filter f xs of [] \<Rightarrow> None | y # ys \<Rightarrow> Some y)"

definition exampleFiles :: "string list" where
  "exampleFiles =
     [''/r/src/main.ts'',
      ''/r/node_modules/pkg/package.json'',
      ''/r/node_modules/pkg/a.js'',
      ''/r/node_modules/pkg/a.mjs'',
      ''/r/node_modules/pkg/b.js'',
      ''/r/node_modules/pkg/bin/cli'',
      ''/r/node_modules/pkg/lib/index.js'',
      ''/r/node_modules/pkg/style.css'',
      ''/r/node_modules/consumer/package.json'',
      ''/r/node_modules/consumer/index.js'']"

definition exampleTryFsResolve :: "string \<Rightarrow> options \<Rightarrow> bool \<Rightarrow> bool \<Rightarrow> string option" where
  "exampleTryFsResolve p opts tryIndex targetWeb =
     (case filter (\<lambda>q. q \<in> set exampleFiles)
             (p # map (\<lambda>e. p @ e) (extensions opts)
                @ (if tryIndex then map (\<lambda>e. p @ ''/index'' @ e) (extensions opts) else []))
      of [] \<Rightarrow> None | q # qs \<Rightarrow> Some q)"

text \<open>
  A filesystem resolver that works as the one above when it is called with the given
  \<open>tryIndex\<close>, and answers a path outside the package when called with the other.
\<close>

definition exampleTryFsResolveAt :: "bool \<Rightarrow> string \<Rightarrow> options \<Rightarrow> bool \<Rightarrow> bool \<Rightarrow> string option" where
  "exampleTryFsResolveAt b p opts tryIndex targetWeb =
     (if tryIndex = b then exampleTryFsResolve p opts tryIndex targetWeb
      else Some ''/elsewhere'')"

text \<open>
  Modelled from the spec: \<open>resolveExportsOrImports\<close> is not among the sources. This
  version covers a subpath map with exact keys whose targets are strings, conditions
  objects (tried in declared order, possibly nested) or arrays of alternatives
  (the first that resolves), and an exports field that is an array of such maps
  (the first that resolves the subpath). The active conditions are \<open>require\<close> or
  \<open>import\<close>, \<open>browser\<close> for the web target, and \<open>default\<close>.
\<close>

fun resolveTarget :: "string list \<Rightarrow> json \<Rightarrow> string option"
  and resolveConditions :: "string list \<Rightarrow> (string \<times> json) list \<Rightarrow> string option"
  and resolveAlternatives :: "string list \<Rightarrow> json list \<Rightarrow> string option" where
  "resolveTarget conds (JStr t) = Some t"
| "resolveTarget conds (JObj kvs) = resolveConditions conds kvs"
| "resolveTarget conds (JArr alts) = resolveAlternatives conds alts"
| "resolveTarget conds JUndefined = None"
| "resolveTarget conds JNull = None"
| "resolveTarget conds (JBool b) = None"
| "resolveTarget conds (JNum n) = None"
| "resolveConditions conds [] = None"
| "resolveConditions conds (kv # kvs) =
     (if fst kv \<in> set conds
      then (case resolveTarget conds (snd kv) of
              Some t \<Rightarrow> Some t
            | None \<Rightarrow> resolveConditions conds kvs)
      else resolveConditions conds kvs)"
| "resolveAlternatives conds [] = None"
| "resolveAlternatives conds (a # alts) =
     (case resolveTarget conds a of Some t \<Rightarrow> Some t | None \<Rightarrow> resolveAlternatives conds alts)"

definition ownProperty :: "json \<Rightarrow> string \<Rightarrow> json" where
  "ownProperty v key =
     (case v of
        JObj kvs \<Rightarrow> (case map_of kvs key of Some w \<Rightarrow> w | None \<Rightarrow> JUndefined)
      | w \<Rightarrow> JUndefined)"

definition lookupSubpath :: "string list \<Rightarrow> string \<Rightarrow> json \<Rightarrow> string option" where
  "lookupSubpath conds file e =
     (case ownProperty e file of JUndefined \<Rightarrow> None | t \<Rightarrow> resolveTarget conds t)"

definition exampleResolveExports ::
  "manifest \<Rightarrow> string \<Rightarrow> options \<Rightarrow> bool \<Rightarrow> error + string option" where
  "exampleResolveExports m file opts targetWeb =
     (let conds = (if isRequire opts then [''require''] else [''import''])
                  @ (if targetWeb then [''browser''] else []) @ [''default'']
      in Inr (case exports m of
                JArr alts \<Rightarrow> firstSome (lookupSubpath conds file) alts
              | e \<Rightarrow> lookupSubpath conds file e))"

definition exampleMapWithBrowserField :: "string \<Rightarrow> json \<Rightarrow> browserMapped" where
  "exampleMapWithBrowserField file table =
     (case ownProperty table file of
        JStr t \<Rightarrow> BrString t
      | JBool b \<Rightarrow> (if b then BrUndefined else BrFalse)
      | v \<Rightarrow> BrUndefined)"

definition exampleSplitFileAndPostfix :: "string \<Rightarrow> string \<times> string" where
  "exampleSplitFileAndPostfix p = (cleanUrl p, drop (length (cleanUrl p)) p)"

definition exampleResolvePackageData ::
  "packageData list \<Rightarrow> string \<Rightarrow> string \<Rightarrow> bool \<Rightarrow> packageData option" where
  "exampleResolvePackageData pkgs pkgId basedir preserve =
     firstSome (\<lambda>d. find (\<lambda>p. dir p = d @ ''/node_modules/'' @ pkgId) pkgs)
       (ancestorDirs basedir)"

definition exampleFindNearestPackageData :: "packageData list \<Rightarrow> string \<Rightarrow> packageData option" where
  "exampleFindNearestPackageData pkgs basedir =
     firstSome (\<lambda>d. find (\<lambda>p. dir p = d) pkgs) (ancestorDirs basedir)"

definition exampleFindNearestMainPackageData ::
  "packageData list \<Rightarrow> string \<Rightarrow> packageData option" where
  "exampleFindNearestMainPackageData pkgs basedir =
     firstSome (\<lambda>d. find (\<lambda>p. dir p = d \<and> truthyStr (name (data p))) pkgs)
       (ancestorDirs basedir)"

definition exampleResolvePackageEntry ::
  "string \<Rightarrow> packageData \<Rightarrow> bool \<Rightarrow> options \<Rightarrow> state \<Rightarrow> (error + string option) \<times> state" where
  "exampleResolvePackageEntry ident pkg targetWeb opts s =
     (Inr (exampleTryFsResolve (posixJoin (dir pkg) ''index'') opts False targetWeb),
      logEvent (TryFsResolve (posixJoin (dir pkg) ''index'') False) s)"

definition exampleIsInNodeModules :: "string \<Rightarrow> bool" where
  "exampleIsInNodeModules p = (0 \<le> indexOf p ''node_modules'')"

definition exampleIsJs :: "string \<Rightarrow> bool" where
  "exampleIsJs p = (posixExtname p \<in> set [''.js'', ''.ts'', ''.mjs'', ''.cjs'', ''.mts'', ''.cts''])"

definition exampleInjectQuery :: "string \<Rightarrow> string \<Rightarrow> string" where
  "exampleInjectQuery url q =
     (let file = cleanUrl url;
          post = drop (length file) url;
          search = takeWhile (\<lambda>c. c \<noteq> CHR ''#'') post;
          hash = dropWhile (\<lambda>c. c \<noteq> CHR ''#'') post
      in file @ ''?'' @ q @ (if search = [] then [] else CHR ''&'' # tl search) @ hash)"

text \<open>
  The property names of the prototypes, as the platform has them (those of
  \<open>Array.prototype\<close> and \<open>String.prototype\<close> vary with its version).
\<close>

fun examplePrototypeKeys :: "proto \<Rightarrow> string list" where
  "examplePrototypeKeys ObjectPrototype =
     [''constructor'', ''__defineGetter__'', ''__defineSetter__'', ''hasOwnProperty'',
      ''__lookupGetter__'', ''__lookupSetter__'', ''isPrototypeOf'', ''propertyIsEnumerable'',
      ''toString'', ''valueOf'', ''__proto__'', ''toLocaleString'']"
| "examplePrototypeKeys ArrayPrototype =
     [''constructor'', ''at'', ''concat'', ''copyWithin'', ''fill'', ''find'', ''findIndex'',
      ''findLast'', ''findLastIndex'', ''lastIndexOf'', ''pop'', ''push'', ''reverse'',
      ''shift'', ''unshift'', ''slice'', ''sort'', ''splice'', ''includes'', ''indexOf'',
      ''join'', ''keys'', ''entries'', ''values'', ''forEach'', ''filter'', ''flat'',
      ''flatMap'', ''map'', ''every'', ''some'', ''reduce'', ''reduceRight'',
      ''toLocaleString'', ''toString'']"
| "examplePrototypeKeys StringPrototype =
     [''constructor'', ''anchor'', ''at'', ''big'', ''blink'', ''bold'', ''charAt'',
      ''charCodeAt'', ''codePointAt'', ''concat'', ''endsWith'', ''fontcolor'', ''fontsize'',
      ''fixed'', ''includes'', ''indexOf'', ''italics'', ''lastIndexOf'', ''link'',
      ''localeCompare'', ''match'', ''matchAll'', ''normalize'', ''padEnd'', ''padStart'',
      ''repeat'', ''replace'', ''replaceAll'', ''search'', ''slice'', ''small'', ''split'',
      ''strike'', ''sub'', ''substr'', ''substring'', ''sup'', ''startsWith'', ''toString'',
      ''trim'', ''trimStart'', ''trimLeft'', ''trimEnd'', ''trimRight'',
      ''toLocaleLowerCase'', ''toLocaleUpperCase'', ''toLowerCase'', ''toUpperCase'',
      ''valueOf'']"
| "examplePrototypeKeys NumberPrototype =
     [''constructor'', ''toExponential'', ''toFixed'', ''toPrecision'', ''toString'',
      ''valueOf'', ''toLocaleString'']"
| "examplePrototypeKeys BooleanPrototype = [''constructor'', ''toString'', ''valueOf'']"

text \<open>
  The only key read from a value of the platform is \<open>optional\<close>, which none of its
  functions and prototypes has: the read gives \<open>undefined\<close>.
\<close>

definition examplePlatformGet :: "proto \<Rightarrow> string \<Rightarrow> string \<Rightarrow> jsval" where
  "examplePlatformGet p k key = JsonVal JUndefined"

definition exampleEnv :: "packageData list \<Rightarrow> env" where
  "exampleEnv pkgs =
     \<lparr>builtinModules = [''fs'', ''path'', ''os'', ''url'', ''module'', ''http''],
      DEFAULT_MAIN_FIELDS = [''module'', ''jsnext:main'', ''jsnext''],
      pathJoin = posixJoin,
      pathDirname = posixDirname,
      pathIsAbsolute = posixIsAbsolute,
      pathExtname = posixExtname,
      existsSync = (\<lambda>p. p \<in> set exampleFiles),
      splitFileAndPostfix = exampleSplitFileAndPostfix,
      resolveExportsOrImports = exampleResolveExports,
      mapWithBrowserField = exampleMapWithBrowserField,
      tryFsResolve = exampleTryFsResolve,
      resolvePackageData = exampleResolvePackageData pkgs,
      findNearestMainPackageData = exampleFindNearestMainPackageData pkgs,
      findNearestPackageData = exampleFindNearestPackageData pkgs,
      resolvePackageEntry = exampleResolvePackageEntry,
      isInNodeModules = exampleIsInNodeModules,
      isOptimizable = (\<lambda>p d. exampleIsJs p),
      OPTIMIZABLE_ENTRY_RE = exampleIsJs,
      SPECIAL_QUERY_RE = (\<lambda>p. 0 \<le> indexOf p ''?raw'' \<or> 0 \<le> indexOf p ''?url''
                                \<or> 0 \<le> indexOf p ''?worker''),
      injectQuery = exampleInjectQuery,
      prototypeKeys = examplePrototypeKeys,
      platformGet = examplePlatformGet\<rparr>"

definition exampleOptions :: options where
  "exampleOptions =
     \<lparr>root = ''/r'', dedupe = None, isBuild = False, preserveSymlinks = False,
      tryEsmOnly = False, isRequire = True, mainFields = [''main''],
      extensions = [''.js'', ''.json''], browserField = True, idOnly = False, scan = False,
      ssrOptimizeCheck = False, ssrOptimizeDepsExclude = None, ssrOptimizeDepsInclude = None\<rparr>"

definition emptyCache :: pkgCache where
  "emptyCache = \<lparr>webResolvedImports = Map.empty, nodeResolvedImports = Map.empty\<rparr>"

definition emptyState :: state where
  "emptyState = \<lparr>caches = (\<lambda>d. emptyCache), trace = []\<rparr>"

text \<open>The package \<open>pkg\<close> of the example, with a given exports field and browser field.\<close>

definition examplePkg :: "json \<Rightarrow> json \<Rightarrow> packageData" where
  "examplePkg e b =
     \<lparr>dir = ''/r/node_modules/pkg'',
      data = \<lparr>name = Some ''pkg'', exports = e, browser = b, peerDependencies = JUndefined,
              peerDependenciesMeta = JUndefined, moduleType = JUndefined\<rparr>,
      hasSideEffects = (\<lambda>p. True)\<rparr>"

text \<open>A package \<open>consumer\<close> with given peer dependencies and their metadata.\<close>

definition exampleConsumer :: "json \<Rightarrow> json \<Rightarrow> packageData" where
  "exampleConsumer pd pdm =
     \<lparr>dir = ''/r/node_modules/consumer'',
      data = \<lparr>name = Some ''consumer'', exports = JUndefined, browser = JUndefined,
              peerDependencies = pd, peerDependenciesMeta = pdm, moduleType = JUndefined\<rparr>,
      hasSideEffects = (\<lambda>p. True)\<rparr>"

section \<open>Reading the trace\<close>

text \<open>The events that a call added to the trace.\<close>

definition newEvents :: "state \<Rightarrow> state \<Rightarrow> event list" where
  "newEvents s s' = drop (length (trace s)) (trace s')"

fun isMapWithBrowserField :: "event \<Rightarrow> bool" where
  "isMapWithBrowserField (MapWithBrowserField file) = True"
| "isMapWithBrowserField e = False"

text \<open>The \<open>tryIndex\<close> arguments of the filesystem lookups in a list of events, in order.\<close>

fun tryIndexFlags :: "event list \<Rightarrow> bool list" where
  "tryIndexFlags [] = []"
| "tryIndexFlags (TryFsResolve p tryIndex # es) = tryIndex # tryIndexFlags es"
| "tryIndexFlags (e # es) = tryIndexFlags es"

text \<open>\<open>s.includes(pat)\<close>.\<close>

definition includesStr :: "string \<Rightarrow> string \<Rightarrow> bool" where
  "includesStr s pat = (0 \<le> indexOf s pat)"

section \<open>Predicates of the statements\<close>

text \<open>
  What a call of \<open>resolveDeepImport\<close> from state \<open>s\<close> leaves behind. After a
  success the resolution cache holds the result under the same key and the same call,
  made again, returns it and leaves the state (memo tables and trace) as it is. After a
  miss or an error the memo tables are what they were.
\<close>

definition cacheOutcome ::
  "env \<Rightarrow> string \<Rightarrow> packageData \<Rightarrow> bool \<Rightarrow> options \<Rightarrow> state
     \<Rightarrow> (error + string option) \<times> state \<Rightarrow> bool" where
  "cacheOutcome env ident pkg targetWeb opts s out =
     (case fst out of
        Inr (Some r) \<Rightarrow>
          getResolvedCache pkg (snd out) ident targetWeb = Some r
          \<and> resolveDeepImport env ident pkg targetWeb opts (snd out) = (Inr (Some r), snd out)
      | Inr None \<Rightarrow> caches (snd out) = caches s
      | Inl e \<Rightarrow> caches (snd out) = caches s)"

text \<open>
  The nearest main manifest exists and gives a truthy value for the specifier in
  \<open>peerDependencies\<close> and a truthy value for \<open>optional\<close> in what
  \<open>peerDependenciesMeta\<close> gives for the specifier.
\<close>

definition listsOptionalPeer :: "env \<Rightarrow> packageData option \<Rightarrow> string \<Rightarrow> bool" where
  "listsOptionalPeer env mp ident =
     (case mp of
        None \<Rightarrow> False
      | Some p \<Rightarrow>
          truthyVal (getProp env (peerDependencies (data p)) ident)
          \<and> truthyVal (getPropVal env
                         (getProp env (peerDependenciesMeta (data p)) ident) ''optional''))"

text \<open>
  The extensions that \<open>processResult\<close> lets through to the external mark: none
  (\<open>path.extname\<close> gives the empty string), \<open>.js\<close>, \<open>.mjs\<close> and \<open>.cjs\<close>.
\<close>

definition externalizableExtensions :: "string list" where
  "externalizableExtensions = ['''', ''.js'', ''.mjs'', ''.cjs'']"

text \<open>Whether a result of \<open>tryNodeResolve\<close> is a module id marked external.\<close>

definition externalMark :: "(error + partialResolvedId option) \<Rightarrow> bool" where
  "externalMark res = (case res of Inr (Some r) \<Rightarrow> external r | Inr None \<Rightarrow> False | Inl e \<Rightarrow> False)"

section \<open>Facts about the state\<close>

lemma trace_logEvent: "trace (logEvent e s) = trace s @ [e]"
  by (simp add: logEvent_def)

lemma caches_logEvent: "caches (logEvent e s) = caches s"
  by (simp add: logEvent_def)

lemma trace_setResolvedCache: "trace (setResolvedCache pkg key entry targetWeb s) = trace s"
  by (simp add: setResolvedCache_def Let_def)

lemma getResolvedCache_logEvent:
  "getResolvedCache pkg (logEvent e s) key targetWeb = getResolvedCache pkg s key targetWeb"
  by (simp add: getResolvedCache_def logEvent_def)

lemma getResolvedCache_setResolvedCache:
  "getResolvedCache pkg (setResolvedCache pkg key entry targetWeb s) key targetWeb = Some entry"
  by (simp add: getResolvedCache_def setResolvedCache_def Let_def)

lemma resolveRelativeId_trace:
  "trace (snd (resolveRelativeId env ident pkg targetWeb opts rel s))
   = trace s @ (if truthyStr rel
                then [TryFsResolve (pathJoin env (dir pkg) (the rel))
                        (\<not> truthy (exports (data pkg)))]
                else [])"
  by (cases rel)
     (simp_all add: resolveRelativeId_def Let_def trace_logEvent trace_setResolvedCache)

lemma newEvents_same: "newEvents s s = []"
  by (simp add: newEvents_def)

lemma newEvents_logEvent: "newEvents s (logEvent e s) = [e]"
  by (simp add: newEvents_def trace_logEvent)

lemma newEvents_caches: "newEvents s (s'\<lparr>caches := c\<rparr>) = newEvents s s'"
  by (simp add: newEvents_def)

lemma newEvents_resolveRelativeId:
  "newEvents s (snd (resolveRelativeId env ident pkg targetWeb opts rel s))
   = (if truthyStr rel
      then [TryFsResolve (pathJoin env (dir pkg) (the rel)) (\<not> truthy (exports (data pkg)))]
      else [])"
  by (simp add: newEvents_def resolveRelativeId_trace)

lemma newEvents_resolveRelativeId_logEvent:
  "newEvents s (snd (resolveRelativeId env ident pkg targetWeb opts rel (logEvent e s)))
   = e # (if truthyStr rel
          then [TryFsResolve (pathJoin env (dir pkg) (the rel)) (\<not> truthy (exports (data pkg)))]
          else [])"
  by (simp add: newEvents_def resolveRelativeId_trace trace_logEvent)

lemma resolveRelativeId_mapper:
  "resolveRelativeId (env\<lparr>mapWithBrowserField := f\<rparr>) ident pkg targetWeb opts rel s
   = resolveRelativeId env ident pkg targetWeb opts rel s"
  by (simp add: resolveRelativeId_def split: option.splits)

lemma resolveRelativeId_tryFsResolve:
  assumes "\<And>p ops tw. f p ops (\<not> truthy (exports (data pkg))) tw
                       = tryFsResolve env p ops (\<not> truthy (exports (data pkg))) tw"
  shows "resolveRelativeId (env\<lparr>tryFsResolve := f\<rparr>) ident pkg targetWeb opts rel s
         = resolveRelativeId env ident pkg targetWeb opts rel s"
  using assms by (simp add: resolveRelativeId_def Let_def split: option.splits)

section \<open>The three ways through resolveDeepImport\<close>

text \<open>
  A truthy cache entry is returned at once. On a miss, a truthy exports field sends the
  call through the exports resolver or to the error; without one, the browser field is
  used for the web target, and the identifier itself otherwise.
\<close>

lemma resolveDeepImport_hit:
  assumes "truthyStr (getResolvedCache pkg s ident targetWeb)"
  shows "resolveDeepImport env ident pkg targetWeb opts s
         = (Inr (getResolvedCache pkg s ident targetWeb), s)"
  using assms by (simp add: resolveDeepImport_def)

lemma resolveDeepImport_exports:
  assumes "truthy (exports (data pkg))"
    and "\<not> truthyStr (getResolvedCache pkg s ident targetWeb)"
    and "splitFileAndPostfix env ident = (file, postfix)"
  shows "resolveDeepImport env ident pkg targetWeb opts s =
     (if isObject (exports (data pkg)) \<and> \<not> isArray (exports (data pkg)) then
        (case resolveExportsOrImports env (data pkg) file opts targetWeb of
           Inl e \<Rightarrow> (Inl e, logEvent (ResolveExportsOrImports file) s)
         | Inr None \<Rightarrow> (Inl (subpathNotDefined env None pkg),
                        logEvent (ResolveExportsOrImports file) s)
         | Inr (Some x) \<Rightarrow>
             if x @ postfix = []
             then (Inl (subpathNotDefined env (Some []) pkg),
                   logEvent (ResolveExportsOrImports file) s)
             else resolveRelativeId env ident pkg targetWeb opts (Some (x @ postfix))
                    (logEvent (ResolveExportsOrImports file) s))
      else (Inl (subpathNotDefined env None pkg), s))"
  using assms
  by (simp add: resolveDeepImport_def Let_def split: sum.splits option.splits)

lemma resolveDeepImport_no_exports:
  assumes "\<not> truthy (exports (data pkg))"
    and "\<not> truthyStr (getResolvedCache pkg s ident targetWeb)"
    and "splitFileAndPostfix env ident = (file, postfix)"
  shows "resolveDeepImport env ident pkg targetWeb opts s =
     (if targetWeb \<and> browserField opts \<and> isObject (browser (data pkg)) then
        (case mapWithBrowserField env file (browser (data pkg)) of
           BrString m \<Rightarrow>
             resolveRelativeId env ident pkg targetWeb opts
               (Some (if m \<noteq> [] then m @ postfix else ident))
               (logEvent (MapWithBrowserField file) s)
         | BrFalse \<Rightarrow>
             (Inr (Some browserExternalId),
              (logEvent (MapWithBrowserField file) s)
                \<lparr>caches := (caches s)(dir pkg :=
                   (caches s (dir pkg))
                     \<lparr>webResolvedImports :=
                        (webResolvedImports (caches s (dir pkg)))(ident \<mapsto> browserExternalId)\<rparr>)\<rparr>)
         | BrUndefined \<Rightarrow>
             resolveRelativeId env ident pkg targetWeb opts (Some ident)
               (logEvent (MapWithBrowserField file) s))
      else resolveRelativeId env ident pkg targetWeb opts (Some ident) s)"
  using assms
  by (simp add: resolveDeepImport_def Let_def caches_logEvent split: browserMapped.splits)

section \<open>Facts about the cache and about the external mark\<close>

lemma resolveDeepImport_again:
  assumes "getResolvedCache pkg s ident targetWeb = Some r" and "r \<noteq> []"
  shows "resolveDeepImport env ident pkg targetWeb opts s = (Inr (Some r), s)"
  using assms by (simp add: resolveDeepImport_def)

lemma cacheOutcome_error: "caches s' = caches s \<Longrightarrow> cacheOutcome env ident pkg targetWeb opts s (Inl e, s')"
  by (simp add: cacheOutcome_def)

lemma cacheOutcome_resolveRelativeId:
  assumes "caches s1 = caches s"
  shows "cacheOutcome env ident pkg targetWeb opts s
           (resolveRelativeId env ident pkg targetWeb opts rel s1)"
proof (cases "truthyStr rel")
  case False
  with assms show ?thesis
    by (cases rel) (simp_all add: resolveRelativeId_def cacheOutcome_def)
next
  case True
  then obtain x where rel: "rel = Some x" and x: "x \<noteq> []"
    by (cases rel) simp_all
  let ?p = "pathJoin env (dir pkg) x"
  let ?ti = "\<not> truthy (exports (data pkg))"
  show ?thesis
  proof (cases "truthyStr (tryFsResolve env ?p opts ?ti targetWeb)")
    case False
    with assms rel x show ?thesis
      by (simp add: resolveRelativeId_def cacheOutcome_def Let_def caches_logEvent)
  next
    case True
    then obtain r where r: "tryFsResolve env ?p opts ?ti targetWeb = Some r" and rne: "r \<noteq> []"
      by (cases "tryFsResolve env ?p opts ?ti targetWeb") simp_all
    let ?s' = "setResolvedCache pkg ident r targetWeb (logEvent (TryFsResolve ?p ?ti) s1)"
    have out: "resolveRelativeId env ident pkg targetWeb opts rel s1 = (Inr (Some r), ?s')"
      using rel x r rne by (simp add: resolveRelativeId_def Let_def)
    have g: "getResolvedCache pkg ?s' ident targetWeb = Some r"
      by (rule getResolvedCache_setResolvedCache)
    show ?thesis
      unfolding out using g resolveDeepImport_again [OF g rne]
      by (simp add: cacheOutcome_def)
  qed
qed

lemma external_processResult:
  assumes "\<not> external resolved"
  shows "external (processResult env ident deep pkg externalize allowLinkedExternal resolved)
         = (externalize
            \<and> (allowLinkedExternal \<or> isInNodeModules env (moduleId resolved))
            \<and> pathExtname env (moduleId resolved) \<in> set externalizableExtensions)"
  using assms by (auto simp add: processResult_def Let_def externalizableExtensions_def)

lemma externalMark_optimizeResolved:
  "\<not> externalMark (fst (optimizeResolved env ident importer opts depsOpt ssr pkgId pkg resolved s))"
  unfolding optimizeResolved_def Let_def
  by (simp add: externalMark_def plainId_def split: option.split prod.split)

lemma cacheOutcome_resolveDeepImport:
  "cacheOutcome env ident pkg targetWeb opts s (resolveDeepImport env ident pkg targetWeb opts s)"
proof (cases "truthyStr (getResolvedCache pkg s ident targetWeb)")
  case True
  then obtain c where c: "getResolvedCache pkg s ident targetWeb = Some c" and cne: "c \<noteq> []"
    by (cases "getResolvedCache pkg s ident targetWeb") simp_all
  show ?thesis
    using c resolveDeepImport_again [OF c cne] by (simp add: cacheOutcome_def)
next
  case False
  obtain fl pf where sp: "splitFileAndPostfix env ident = (fl, pf)"
    by (cases "splitFileAndPostfix env ident")
  show ?thesis
  proof (cases "truthy (exports (data pkg))")
    case True
    show ?thesis
      unfolding resolveDeepImport_exports [OF True False sp]
      by (simp add: cacheOutcome_error caches_logEvent cacheOutcome_resolveRelativeId
            split: sum.splits option.splits)
  next
    case nex: False
    show ?thesis
    proof (cases "targetWeb \<and> browserField opts \<and> isObject (browser (data pkg))
                  \<and> mapWithBrowserField env fl (browser (data pkg)) = BrFalse")
      case True
      let ?s' = "(logEvent (MapWithBrowserField fl) s)
                \<lparr>caches := (caches s)(dir pkg :=
                   (caches s (dir pkg))
                     \<lparr>webResolvedImports :=
                        (webResolvedImports (caches s (dir pkg)))(ident \<mapsto> browserExternalId)\<rparr>)\<rparr>"
      have out: "resolveDeepImport env ident pkg targetWeb opts s = (Inr (Some browserExternalId), ?s')"
        using True resolveDeepImport_no_exports [OF nex False sp, of opts] by simp
      have g: "getResolvedCache pkg ?s' ident targetWeb = Some browserExternalId"
        using True by (simp add: getResolvedCache_def)
      have ne: "browserExternalId \<noteq> []"
        by (simp add: browserExternalId_def)
      show ?thesis
        unfolding out using g resolveDeepImport_again [OF g ne]
        by (simp add: cacheOutcome_def)
    next
      case False
      then show ?thesis
        unfolding resolveDeepImport_no_exports [OF nex \<open>\<not> truthyStr _\<close> sp]
        by (auto simp add: caches_logEvent cacheOutcome_resolveRelativeId
              split: browserMapped.splits)
    qed
  qed
qed

section \<open>The error for a subpath that the exports field does not cover\<close>

text \<open>
  C1. For a package whose exports field is a (truthy) object and a subpath that the
  exports resolver does not cover (it answers \<open>undefined\<close>), \<open>resolveDeepImport\<close>
  throws, and makes no filesystem lookup: the only call recorded is the one of the
  exports resolver. The message names the manifest path. Where the claim has the
  requested subpath, the message has the text \<open>undefined\<close>, whatever the subpath was:
  the template prints \<open>relativeId\<close>, which holds \<open>undefined\<close> by then.
\<close>

theorem uncovered_subpath_hard_error:
  assumes "\<not> truthyStr (getResolvedCache pkg s ident targetWeb)"
    and "truthy (exports (data pkg))"
    and "isObject (exports (data pkg))"
    and "splitFileAndPostfix env ident = (fl, pf)"
    and "resolveExportsOrImports env (data pkg) fl opts targetWeb = Inr None"
  shows "resolveDeepImport env ident pkg targetWeb opts s =
           (Inl (Error (''Package subpath '' @ [CHR 0x27] @ ''undefined'' @ [CHR 0x27]
                        @ '' is not defined by '' @ [CHR 0x22] @ ''exports'' @ [CHR 0x22]
                        @ '' in '' @ pathJoin env (dir pkg) ''package.json'' @ ''.'')),
            logEvent (ResolveExportsOrImports fl) s)"
proof -
  from assms(3) have "\<not> isArray (exports (data pkg))"
    by (cases "exports (data pkg)") simp_all
  with assms show ?thesis
    by (simp add: resolveDeepImport_exports [OF assms(2) assms(1) assms(4)]
          subpathNotDefined_def)
qed

theorem uncovered_subpath_hard_error_witness:
  "resolveDeepImport (exampleEnv []) ''./b''
     (examplePkg (JObj [(''./a'', JStr ''./a.js'')]) JUndefined) False exampleOptions emptyState
   = (Inl (Error (''Package subpath '' @ [CHR 0x27] @ ''undefined'' @ [CHR 0x27]
                  @ '' is not defined by '' @ [CHR 0x22] @ ''exports'' @ [CHR 0x22]
                  @ '' in /r/node_modules/pkg/package.json.'')),
      logEvent (ResolveExportsOrImports ''./b'') emptyState)
   \<and> \<not> includesStr (''Package subpath '' @ [CHR 0x27] @ ''undefined'' @ [CHR 0x27]
                  @ '' is not defined by '' @ [CHR 0x22] @ ''exports'' @ [CHR 0x22]
                  @ '' in /r/node_modules/pkg/package.json.'') ''./b''
   \<and> existsSync (exampleEnv []) ''/r/node_modules/pkg/b.js''"
proof -
  let ?P = "examplePkg (JObj [(''./a'', JStr ''./a.js'')]) JUndefined"
  have h1: "\<not> truthyStr (getResolvedCache ?P emptyState ''./b'' False)"
    by code_simp
  have h2: "truthy (exports (data ?P))" and h3: "isObject (exports (data ?P))"
    by code_simp+
  have h4: "splitFileAndPostfix (exampleEnv []) ''./b'' = (''./b'', [])"
    by code_simp
  have h5: "resolveExportsOrImports (exampleEnv []) (data ?P) ''./b'' exampleOptions False = Inr None"
    by code_simp
  have j: "pathJoin (exampleEnv []) (dir ?P) ''package.json'' = ''/r/node_modules/pkg/package.json''"
    by code_simp
  have c2: "\<not> includesStr (''Package subpath '' @ [CHR 0x27] @ ''undefined'' @ [CHR 0x27]
                  @ '' is not defined by '' @ [CHR 0x22] @ ''exports'' @ [CHR 0x22]
                  @ '' in /r/node_modules/pkg/package.json.'') ''./b''"
    by code_simp
  have c3: "existsSync (exampleEnv []) ''/r/node_modules/pkg/b.js''"
    by code_simp
  have c1: "resolveDeepImport (exampleEnv []) ''./b'' ?P False exampleOptions emptyState
   = (Inl (Error (''Package subpath '' @ [CHR 0x27] @ ''undefined'' @ [CHR 0x27]
                  @ '' is not defined by '' @ [CHR 0x22] @ ''exports'' @ [CHR 0x22]
                  @ '' in /r/node_modules/pkg/package.json.'')),
      logEvent (ResolveExportsOrImports ''./b'') emptyState)"
    using uncovered_subpath_hard_error [OF h1 h2 h3 h4 h5] j by simp
  show ?thesis
    by (intro conjI) (rule c1 c2 c3)+
qed

section \<open>An exports field that is an array\<close>

text \<open>
  C2, as stated, fails. The subpath map \<open>{"./a": "./a.js"}\<close> as exports field
  resolves \<open>./a\<close> to the file; the array holding that map as its only alternative
  does not, although the exports resolver of the example, asked, resolves it:
  \<open>resolveDeepImport\<close> throws without asking.
\<close>

theorem array_exports_counterexample:
  "fst (resolveDeepImport (exampleEnv []) ''./a''
          (examplePkg (JObj [(''./a'', JStr ''./a.js'')]) JUndefined)
          False exampleOptions emptyState)
     = Inr (Some ''/r/node_modules/pkg/a.js'')
   \<and> resolveExportsOrImports (exampleEnv [])
        (data (examplePkg (JArr [JObj [(''./a'', JStr ''./a.js'')]]) JUndefined))
        ''./a'' exampleOptions False
     = Inr (Some ''./a.js'')
   \<and> fst (resolveDeepImport (exampleEnv []) ''./a''
          (examplePkg (JArr [JObj [(''./a'', JStr ''./a.js'')]]) JUndefined)
          False exampleOptions emptyState)
     = Inl (Error (''Package subpath '' @ [CHR 0x27] @ ''undefined'' @ [CHR 0x27]
                  @ '' is not defined by '' @ [CHR 0x22] @ ''exports'' @ [CHR 0x22]
                  @ '' in /r/node_modules/pkg/package.json.''))
   \<and> newEvents emptyState
        (snd (resolveDeepImport (exampleEnv []) ''./a''
                (examplePkg (JArr [JObj [(''./a'', JStr ''./a.js'')]]) JUndefined)
                False exampleOptions emptyState))
     = []"
  by code_simp

text \<open>
  C2, amended. When the exports field is an array, a deep-import resolution that misses
  the cache does not evaluate the alternatives: it treats the array form as not exposed
  and throws the subpath error, with no call of the exports resolver, the browser-field
  mapper or the filesystem (the state is returned as it was).
\<close>

theorem array_exports_not_exposed:
  assumes "exports (data pkg) = JArr alts"
    and "\<not> truthyStr (getResolvedCache pkg s ident targetWeb)"
  shows "resolveDeepImport env ident pkg targetWeb opts s
         = (Inl (subpathNotDefined env None pkg), s)"
  using assms by (simp add: resolveDeepImport_def)

theorem array_exports_not_exposed_witness:
  "exports (data (examplePkg (JArr [JObj [(''./a'', JStr ''./a.js'')]]) JUndefined))
     = JArr [JObj [(''./a'', JStr ''./a.js'')]]
   \<and> \<not> truthyStr (getResolvedCache
          (examplePkg (JArr [JObj [(''./a'', JStr ''./a.js'')]]) JUndefined) emptyState ''./a'' False)
   \<and> resolveDeepImport (exampleEnv []) ''./a''
        (examplePkg (JArr [JObj [(''./a'', JStr ''./a.js'')]]) JUndefined)
        False exampleOptions emptyState
     = (Inl (subpathNotDefined (exampleEnv []) None
               (examplePkg (JArr [JObj [(''./a'', JStr ''./a.js'')]]) JUndefined)),
        emptyState)"
proof -
  let ?P = "examplePkg (JArr [JObj [(''./a'', JStr ''./a.js'')]]) JUndefined"
  have h1: "exports (data ?P) = JArr [JObj [(''./a'', JStr ''./a.js'')]]"
    by (simp add: examplePkg_def)
  have h2: "\<not> truthyStr (getResolvedCache ?P emptyState ''./a'' False)"
    by code_simp
  show ?thesis
    by (intro conjI) (rule h1 h2 array_exports_not_exposed [OF h1 h2])+
qed

section \<open>The resolution cache\<close>

text \<open>
  C3, as stated, fails for a failed resolution. The subpath \<open>./missing\<close> resolves to
  nothing; the call leaves no cache entry under its key, and the same call made again
  in the state that the first call left makes the same filesystem lookup once more.
\<close>

theorem failed_resolution_counterexample:
  "fst (resolveDeepImport (exampleEnv []) ''./missing'' (examplePkg JUndefined JUndefined)
          False exampleOptions emptyState)
     = Inr None
   \<and> getResolvedCache (examplePkg JUndefined JUndefined)
        (snd (resolveDeepImport (exampleEnv []) ''./missing'' (examplePkg JUndefined JUndefined)
                False exampleOptions emptyState))
        ''./missing'' False
     = None
   \<and> newEvents emptyState
        (snd (resolveDeepImport (exampleEnv []) ''./missing'' (examplePkg JUndefined JUndefined)
                False exampleOptions emptyState))
     = [TryFsResolve ''/r/node_modules/pkg/missing'' True]
   \<and> newEvents
        (snd (resolveDeepImport (exampleEnv []) ''./missing'' (examplePkg JUndefined JUndefined)
                False exampleOptions emptyState))
        (snd (resolveDeepImport (exampleEnv []) ''./missing'' (examplePkg JUndefined JUndefined)
                False exampleOptions
                (snd (resolveDeepImport (exampleEnv []) ''./missing''
                        (examplePkg JUndefined JUndefined) False exampleOptions emptyState))))
     = [TryFsResolve ''/r/node_modules/pkg/missing'' True]"
  by code_simp

text \<open>
  C3, amended. A cache entry is created by a successful resolution of the key
  (identifier and target, in the tables of the package), the browser stub included,
  and is read by every later identical request: after a success the cache holds the
  result, and the same call made again returns the identical result and leaves the
  state as it is, trace included, so no exports, browser or filesystem work is redone.
  A resolution that finds nothing or throws creates no entry.
\<close>

theorem successful_resolution_is_cached:
  assumes "resolveDeepImport env ident pkg targetWeb opts s = (res, s')"
  shows "case res of
           Inr (Some r) \<Rightarrow>
             getResolvedCache pkg s' ident targetWeb = Some r
             \<and> resolveDeepImport env ident pkg targetWeb opts s' = (Inr (Some r), s')
         | Inr None \<Rightarrow> caches s' = caches s
         | Inl e \<Rightarrow> caches s' = caches s"
  using cacheOutcome_resolveDeepImport [of env ident pkg targetWeb opts s] assms
  by (simp add: cacheOutcome_def split: sum.splits option.splits)

theorem successful_resolution_is_cached_witness:
  "fst (resolveDeepImport (exampleEnv []) ''./a'' (examplePkg JUndefined JUndefined)
          False exampleOptions emptyState)
     = Inr (Some ''/r/node_modules/pkg/a.js'')
   \<and> newEvents emptyState
        (snd (resolveDeepImport (exampleEnv []) ''./a'' (examplePkg JUndefined JUndefined)
                False exampleOptions emptyState))
     = [TryFsResolve ''/r/node_modules/pkg/a'' True]
   \<and> getResolvedCache (examplePkg JUndefined JUndefined)
        (snd (resolveDeepImport (exampleEnv []) ''./a'' (examplePkg JUndefined JUndefined)
                False exampleOptions emptyState))
        ''./a'' False
     = Some ''/r/node_modules/pkg/a.js''
   \<and> resolveDeepImport (exampleEnv []) ''./a'' (examplePkg JUndefined JUndefined)
        False exampleOptions
        (snd (resolveDeepImport (exampleEnv []) ''./a'' (examplePkg JUndefined JUndefined)
                False exampleOptions emptyState))
     = (Inr (Some ''/r/node_modules/pkg/a.js''),
        snd (resolveDeepImport (exampleEnv []) ''./a'' (examplePkg JUndefined JUndefined)
               False exampleOptions emptyState))"
proof -
  let ?first = "resolveDeepImport (exampleEnv []) ''./a'' (examplePkg JUndefined JUndefined)
                  False exampleOptions emptyState"
  have c1: "fst ?first = Inr (Some ''/r/node_modules/pkg/a.js'')"
    by code_simp
  have c2: "newEvents emptyState (snd ?first) = [TryFsResolve ''/r/node_modules/pkg/a'' True]"
    by code_simp
  have run: "?first = (fst ?first, snd ?first)"
    by simp
  have both: "getResolvedCache (examplePkg JUndefined JUndefined) (snd ?first) ''./a'' False
                = Some ''/r/node_modules/pkg/a.js''
              \<and> resolveDeepImport (exampleEnv []) ''./a'' (examplePkg JUndefined JUndefined)
                    False exampleOptions (snd ?first)
                = (Inr (Some ''/r/node_modules/pkg/a.js''), snd ?first)"
    using successful_resolution_is_cached [OF run] unfolding c1 by simp
  show ?thesis
    using c1 c2 both by (intro conjI) simp_all
qed

section \<open>The external mark\<close>

text \<open>
  C4, as stated, fails for a result without extension. \<open>pkg/bin/cli\<close> resolves to
  the file \<open>/r/node_modules/pkg/bin/cli\<close>, whose extension is empty, and with
  \<open>externalize\<close> on the result is marked external.
\<close>

theorem no_extension_external_counterexample:
  "fst (resolveDeepImport (exampleEnv []) ''./bin/cli'' (examplePkg JUndefined JUndefined)
          False exampleOptions emptyState)
     = Inr (Some ''/r/node_modules/pkg/bin/cli'')
   \<and> pathExtname (exampleEnv []) ''/r/node_modules/pkg/bin/cli'' = []
   \<and> fst (tryNodeResolve (exampleEnv [examplePkg JUndefined JUndefined]) ''pkg/bin/cli''
            (Some ''/r/src/main.ts'') exampleOptions False None False True True emptyState)
     = Inr (Some \<lparr>moduleId = ''pkg/bin/cli'', moduleSideEffects = Some True,
                  external = True\<rparr>)"
  by code_simp

text \<open>
  C4, amended. When externalization is requested, only resolved results whose extension
  is \<open>.js\<close>, \<open>.mjs\<close> or \<open>.cjs\<close>, or that have no extension, may be marked
  external; a result with any other extension is returned without the mark. Precisely,
  the result of the function's last part is marked external exactly when \<open>idOnly\<close>
  is off, \<open>externalize\<close> is on, the result is in \<open>node_modules\<close> or linked
  externals are allowed, and the extension is one of the four.
\<close>

theorem external_only_js_or_no_extension:
  "externalMark (fst (finishResolve env ident importer opts depsOpt ssr externalize
                        allowLinkedExternal deep pkgId pkg resolved s))
   = (\<not> idOnly opts \<and> externalize
      \<and> (allowLinkedExternal \<or> isInNodeModules env resolved)
      \<and> pathExtname env resolved \<in> set externalizableExtensions)"
proof (cases "\<not> idOnly opts \<and> ((\<not> scan opts \<and> isBuild opts \<and> depsOpt = None) \<or> externalize)")
  case True
  then show ?thesis
    by (auto simp add: finishResolve_def externalMark_def external_processResult)
next
  case False
  then have "\<not> (\<not> idOnly opts \<and> externalize)"
    by auto
  with False show ?thesis
    using externalMark_optimizeResolved [of env ident importer opts depsOpt ssr pkgId pkg resolved s]
    by (auto simp add: finishResolve_def)
qed

theorem external_only_js_or_no_extension_witness:
  "\<not> externalMark (fst (finishResolve (exampleEnv [examplePkg JUndefined JUndefined])
         ''pkg/style.css'' (Some ''/r/src/main.ts'') exampleOptions None False True True True
         ''pkg'' (examplePkg JUndefined JUndefined) ''/r/node_modules/pkg/style.css'' emptyState))
   \<and> externalMark (fst (finishResolve (exampleEnv [examplePkg JUndefined JUndefined])
         ''pkg/a'' (Some ''/r/src/main.ts'') exampleOptions None False True True True
         ''pkg'' (examplePkg JUndefined JUndefined) ''/r/node_modules/pkg/a.js'' emptyState))
   \<and> externalMark (fst (finishResolve (exampleEnv [examplePkg JUndefined JUndefined])
         ''pkg/bin/cli'' (Some ''/r/src/main.ts'') exampleOptions None False True True True
         ''pkg'' (examplePkg JUndefined JUndefined) ''/r/node_modules/pkg/bin/cli'' emptyState))
   \<and> fst (tryNodeResolve (exampleEnv [examplePkg JUndefined JUndefined]) ''pkg/style.css''
            (Some ''/r/src/main.ts'') exampleOptions False None False True True emptyState)
     = Inr (Some \<lparr>moduleId = ''/r/node_modules/pkg/style.css'', moduleSideEffects = Some True,
                  external = False\<rparr>)
   \<and> fst (tryNodeResolve (exampleEnv [examplePkg JUndefined JUndefined]) ''pkg/a''
            (Some ''/r/src/main.ts'') exampleOptions False None False True True emptyState)
     = Inr (Some \<lparr>moduleId = ''pkg/a.js'', moduleSideEffects = Some True,
                  external = True\<rparr>)"
proof -
  let ?E = "exampleEnv [examplePkg JUndefined JUndefined]"
  have o: "\<not> idOnly exampleOptions"
    by code_simp
  have e1: "pathExtname ?E ''/r/node_modules/pkg/style.css'' \<notin> set externalizableExtensions"
    and e2: "pathExtname ?E ''/r/node_modules/pkg/a.js'' \<in> set externalizableExtensions"
    and e3: "pathExtname ?E ''/r/node_modules/pkg/bin/cli'' \<in> set externalizableExtensions"
    by code_simp+
  have c1: "\<not> externalMark (fst (finishResolve ?E
         ''pkg/style.css'' (Some ''/r/src/main.ts'') exampleOptions None False True True True
         ''pkg'' (examplePkg JUndefined JUndefined) ''/r/node_modules/pkg/style.css'' emptyState))"
    unfolding external_only_js_or_no_extension using e1 by simp
  have c2: "externalMark (fst (finishResolve ?E
         ''pkg/a'' (Some ''/r/src/main.ts'') exampleOptions None False True True True
         ''pkg'' (examplePkg JUndefined JUndefined) ''/r/node_modules/pkg/a.js'' emptyState))"
    unfolding external_only_js_or_no_extension using e2 o by simp
  have c3: "externalMark (fst (finishResolve ?E
         ''pkg/bin/cli'' (Some ''/r/src/main.ts'') exampleOptions None False True True True
         ''pkg'' (examplePkg JUndefined JUndefined) ''/r/node_modules/pkg/bin/cli'' emptyState))"
    unfolding external_only_js_or_no_extension using e3 o by simp
  have c4: "fst (tryNodeResolve ?E ''pkg/style.css''
            (Some ''/r/src/main.ts'') exampleOptions False None False True True emptyState)
     = Inr (Some \<lparr>moduleId = ''/r/node_modules/pkg/style.css'', moduleSideEffects = Some True,
                  external = False\<rparr>)"
    by code_simp
  have c5: "fst (tryNodeResolve ?E ''pkg/a''
            (Some ''/r/src/main.ts'') exampleOptions False None False True True emptyState)
     = Inr (Some \<lparr>moduleId = ''pkg/a.js'', moduleSideEffects = Some True,
                  external = True\<rparr>)"
    by code_simp
  show ?thesis
    by (intro conjI) (rule c1 c2 c3 c4 c5)+
qed

section \<open>Optional peer dependencies\<close>

text \<open>
  C5, as stated, fails. The manifest of \<open>consumer\<close> lists \<open>foo\<close> in
  \<open>peerDependencies\<close>, with the empty range, and sets \<open>optional\<close> for it; the
  package \<open>foo\<close> cannot be located from the directory of the importer, which is not
  the project root, and \<open>foo\<close> is a bare specifier, not a builtin and without NUL
  character. \<open>tryNodeResolve\<close> returns nothing: the source tests the range for
  truthiness, and the empty string is falsy.
\<close>

theorem empty_range_counterexample:
  "map_of [(''foo'', JStr '''')] ''foo'' = Some (JStr '''')
   \<and> fst (chooseBasedir
            (exampleEnv [exampleConsumer (JObj [(''foo'', JStr '''')])
                           (JObj [(''foo'', JObj [(''optional'', JBool True)])])])
            (pkgIdOf ''foo'') (Some ''/r/node_modules/consumer/index.js'') exampleOptions
            emptyState)
     = ''/r/node_modules/consumer''
   \<and> ''/r/node_modules/consumer'' \<noteq> root exampleOptions
   \<and> \<not> isBuiltin
          (exampleEnv [exampleConsumer (JObj [(''foo'', JStr '''')])
                         (JObj [(''foo'', JObj [(''optional'', JBool True)])])])
          ''foo''
   \<and> CHR 0x00 \<notin> set ''foo''
   \<and> bareImportRE ''foo''
   \<and> map_option dir
        (findNearestMainPackageData
           (exampleEnv [exampleConsumer (JObj [(''foo'', JStr '''')])
                          (JObj [(''foo'', JObj [(''optional'', JBool True)])])])
           ''/r/node_modules/consumer'')
     = Some ''/r/node_modules/consumer''
   \<and> fst (tryNodeResolve
            (exampleEnv [exampleConsumer (JObj [(''foo'', JStr '''')])
                           (JObj [(''foo'', JObj [(''optional'', JBool True)])])])
            ''foo'' (Some ''/r/node_modules/consumer/index.js'') exampleOptions
            False None False False True emptyState)
     = Inr None"
  by code_simp

text \<open>
  C5, amended. When the package cannot be located from the chosen base directory,
  \<open>tryNodeResolve\<close> does not throw. It returns the optional-peer-dependency id
  \<open>__vite-optional-peer-dep:<specifier>:<name of the consumer>\<close> when the base
  directory is not the project root, the specifier is not a builtin, has no NUL
  character and has the shape of a bare import, and the nearest main manifest gives a
  truthy value for \<open>peerDependencies[<specifier>]\<close> (so not the empty range) and for
  \<open>peerDependenciesMeta[<specifier>].optional\<close>. In every other not-found case it
  returns nothing. The two values are read as the platform reads a property, own or
  inherited.
\<close>

theorem optional_peer_dependency:
  assumes "chooseBasedir env (pkgIdOf ident) importer opts s = (basedir, s1)"
    and "resolvePackageData env (pkgIdOf ident) basedir (preserveSymlinks opts) = None"
  shows "tryNodeResolve env ident importer opts targetWeb depsOpt ssr externalize
           allowLinkedExternal s
         = (if basedir \<noteq> root opts \<and> \<not> isBuiltin env ident \<and> CHR 0x00 \<notin> set ident
               \<and> bareImportRE ident
               \<and> listsOptionalPeer env (findNearestMainPackageData env basedir) ident
            then Inr (Some \<lparr>moduleId = ''__vite-optional-peer-dep:'' @ ident @ '':''
                               @ templateStr (name (data (the (findNearestMainPackageData env basedir)))),
                            moduleSideEffects = None, external = False\<rparr>)
            else Inr None,
            logEvent (ResolvePackageData (pkgIdOf ident) basedir) s1)"
  using assms
  by (simp add: tryNodeResolve_def resolveFromBasedir_def Let_def resolveOptionalPeerDep_def
        listsOptionalPeer_def plainId_def optionalPeerDepId_def split: option.splits)

theorem optional_peer_dependency_witness:
  "chooseBasedir
     (exampleEnv [exampleConsumer (JObj [(''foo'', JStr ''*'')])
                    (JObj [(''foo'', JObj [(''optional'', JBool True)])])])
     (pkgIdOf ''foo'') (Some ''/r/node_modules/consumer/index.js'') exampleOptions emptyState
     = (''/r/node_modules/consumer'',
        logEvent (ExistsSync ''/r/node_modules/consumer/index.js'') emptyState)
   \<and> resolvePackageData
        (exampleEnv [exampleConsumer (JObj [(''foo'', JStr ''*'')])
                       (JObj [(''foo'', JObj [(''optional'', JBool True)])])])
        (pkgIdOf ''foo'') ''/r/node_modules/consumer'' (preserveSymlinks exampleOptions)
     = None
   \<and> fst (tryNodeResolve
            (exampleEnv [exampleConsumer (JObj [(''foo'', JStr ''*'')])
                           (JObj [(''foo'', JObj [(''optional'', JBool True)])])])
            ''foo'' (Some ''/r/node_modules/consumer/index.js'') exampleOptions
            False None False False True emptyState)
     = Inr (Some \<lparr>moduleId = ''__vite-optional-peer-dep:foo:consumer'',
                  moduleSideEffects = None, external = False\<rparr>)
   \<and> fst (tryNodeResolve
            (exampleEnv [exampleConsumer (JObj [(''foo'', JStr ''*'')])
                           (JObj [(''foo'', JObj [(''optional'', JBool False)])])])
            ''foo'' (Some ''/r/node_modules/consumer/index.js'') exampleOptions
            False None False False True emptyState)
     = Inr None
   \<and> fst (tryNodeResolve
            (exampleEnv [exampleConsumer (JObj [(''foo'', JStr ''*'')])
                           (JObj [(''foo'', JObj [(''optional'', JBool True)])])])
            ''foo'' (Some ''/r/node_modules/consumer/index.js'')
            (exampleOptions\<lparr>root := ''/r/node_modules/consumer''\<rparr>)
            False None False False True emptyState)
     = Inr None
   \<and> fst (tryNodeResolve
            (exampleEnv [exampleConsumer (JObj [])
                           (JObj [(''constructor'', JObj [(''optional'', JBool True)])])])
            ''constructor'' (Some ''/r/node_modules/consumer/index.js'') exampleOptions
            False None False False True emptyState)
     = Inr (Some \<lparr>moduleId = ''__vite-optional-peer-dep:constructor:consumer'',
                  moduleSideEffects = None, external = False\<rparr>)"
proof -
  let ?E = "exampleEnv [exampleConsumer (JObj [(''foo'', JStr ''*'')])
                          (JObj [(''foo'', JObj [(''optional'', JBool True)])])]"
  have h1: "chooseBasedir ?E (pkgIdOf ''foo'') (Some ''/r/node_modules/consumer/index.js'')
              exampleOptions emptyState
            = (''/r/node_modules/consumer'',
               logEvent (ExistsSync ''/r/node_modules/consumer/index.js'') emptyState)"
    by (simp add: chooseBasedir_def includesOpt_def exampleOptions_def exampleEnv_def
          posixIsAbsolute_def cleanUrl_def exampleFiles_def posixDirname_def segments_def
          joinSegs_def Let_def)
  have h2: "resolvePackageData ?E (pkgIdOf ''foo'') ''/r/node_modules/consumer''
              (preserveSymlinks exampleOptions) = None"
    by code_simp
  have g: "(''/r/node_modules/consumer'' \<noteq> root exampleOptions \<and> \<not> isBuiltin ?E ''foo''
            \<and> CHR 0x00 \<notin> set ''foo'' \<and> bareImportRE ''foo''
            \<and> listsOptionalPeer ?E (findNearestMainPackageData ?E ''/r/node_modules/consumer'') ''foo'')"
    by code_simp
  have n: "templateStr (name (data (the (findNearestMainPackageData ?E ''/r/node_modules/consumer''))))
           = ''consumer''"
    by code_simp
  have c3: "fst (tryNodeResolve ?E ''foo'' (Some ''/r/node_modules/consumer/index.js'')
                   exampleOptions False None False False True emptyState)
     = Inr (Some \<lparr>moduleId = ''__vite-optional-peer-dep:foo:consumer'',
                  moduleSideEffects = None, external = False\<rparr>)"
    unfolding optional_peer_dependency [OF h1 h2] using g n by simp
  have c4: "fst (tryNodeResolve
            (exampleEnv [exampleConsumer (JObj [(''foo'', JStr ''*'')])
                           (JObj [(''foo'', JObj [(''optional'', JBool False)])])])
            ''foo'' (Some ''/r/node_modules/consumer/index.js'') exampleOptions
            False None False False True emptyState)
     = Inr None"
    by code_simp
  have c5: "fst (tryNodeResolve ?E
            ''foo'' (Some ''/r/node_modules/consumer/index.js'')
            (exampleOptions\<lparr>root := ''/r/node_modules/consumer''\<rparr>)
            False None False False True emptyState)
     = Inr None"
    by code_simp
  have c6: "fst (tryNodeResolve
            (exampleEnv [exampleConsumer (JObj [])
                           (JObj [(''constructor'', JObj [(''optional'', JBool True)])])])
            ''constructor'' (Some ''/r/node_modules/consumer/index.js'') exampleOptions
            False None False False True emptyState)
     = Inr (Some \<lparr>moduleId = ''__vite-optional-peer-dep:constructor:consumer'',
                  moduleSideEffects = None, external = False\<rparr>)"
    by code_simp
  show ?thesis
    by (intro conjI) (rule h1 h2 c3 c4 c5 c6)+
qed

section \<open>The error of the first attempt and the retry\<close>

text \<open>
  C6. When the first call of the resolver throws, \<open>tryNodeResolve\<close> throws that
  error exactly when \<open>tryEsmOnly\<close> is off. When it is on, the error is dropped and the
  same resolver is called once more, on the same arguments but with \<open>isRequire\<close> false
  and the default main fields and extensions; the outcome is the retry's alone: its
  error, or nothing, or its result shaped by the rest of the function.
\<close>

theorem first_error_and_retry:
  assumes "chooseBasedir env (pkgIdOf ident) importer opts s = (basedir, s0)"
    and "resolvePackageData env (pkgIdOf ident) basedir (preserveSymlinks opts) = Some pkg"
    and "resolveId env (isDeepImport ident) (unresolvedIdOf ident) pkg targetWeb opts
           (logEvent (ResolvePackageData (pkgIdOf ident) basedir) s0) = (Inl err, s1)"
  shows "tryNodeResolve env ident importer opts targetWeb depsOpt ssr externalize
           allowLinkedExternal s
         = (if \<not> tryEsmOnly opts then (Inl err, s1)
            else
              (case resolveId env (isDeepImport ident) (unresolvedIdOf ident) pkg targetWeb
                      (opts\<lparr>isRequire := False, mainFields := DEFAULT_MAIN_FIELDS env,
                            extensions := DEFAULT_EXTENSIONS\<rparr>) s1 of
                 (Inl err2, s2) \<Rightarrow> (Inl err2, s2)
               | (Inr resolved, s2) \<Rightarrow>
                   if truthyStr resolved
                   then finishResolve env ident importer opts depsOpt ssr externalize
                          allowLinkedExternal (isDeepImport ident) (pkgIdOf ident) pkg
                          (the resolved) s2
                   else (Inr None, s2)))"
proof -
  have rw: "resolveWithRetry env (isDeepImport ident) (unresolvedIdOf ident) pkg targetWeb opts
              (logEvent (ResolvePackageData (pkgIdOf ident) basedir) s0)
            = (if \<not> tryEsmOnly opts then (Inl err, s1)
               else resolveId env (isDeepImport ident) (unresolvedIdOf ident) pkg targetWeb
                      (retryOptions env opts) s1)"
    using assms(3) by (simp add: resolveWithRetry_def)
  have rfb: "tryNodeResolve env ident importer opts targetWeb depsOpt ssr externalize
           allowLinkedExternal s
      = (case resolveWithRetry env (isDeepImport ident) (unresolvedIdOf ident) pkg targetWeb opts
                (logEvent (ResolvePackageData (pkgIdOf ident) basedir) s0) of
           (Inl e, s2) \<Rightarrow> (Inl e, s2)
         | (Inr resolved, s2) \<Rightarrow>
             if \<not> truthyStr resolved then (Inr None, s2)
             else finishResolve env ident importer opts depsOpt ssr externalize
                    allowLinkedExternal (isDeepImport ident) (pkgIdOf ident) pkg
                    (the resolved) s2)"
    using assms(1,2) by (simp add: tryNodeResolve_def resolveFromBasedir_def Let_def)
  show ?thesis
    unfolding rfb rw
    by (simp add: retryOptions_def split: prod.splits sum.splits)
qed

theorem first_error_and_retry_witness:
  "tryNodeResolve
     (exampleEnv [examplePkg (JObj [(''./a'', JObj [(''import'', JStr ''./a.mjs'')])]) JUndefined])
     ''pkg/a'' None exampleOptions False None False False True emptyState
   = (Inl (subpathNotDefined
             (exampleEnv [examplePkg (JObj [(''./a'', JObj [(''import'', JStr ''./a.mjs'')])])
                            JUndefined])
             None (examplePkg (JObj [(''./a'', JObj [(''import'', JStr ''./a.mjs'')])]) JUndefined)),
      logEvent (ResolveExportsOrImports ''./a'')
        (logEvent (ResolvePackageData ''pkg'' ''/r'') emptyState))
   \<and> \<not> tryEsmOnly exampleOptions
   \<and> fst (tryNodeResolve
            (exampleEnv [examplePkg (JObj [(''./a'', JObj [(''import'', JStr ''./a.mjs'')])])
                           JUndefined])
            ''pkg/a'' None (exampleOptions\<lparr>tryEsmOnly := True\<rparr>) False None False False True
            emptyState)
     = Inr (Some \<lparr>moduleId = ''/r/node_modules/pkg/a.mjs'', moduleSideEffects = None,
                  external = False\<rparr>)
   \<and> trace (snd (tryNodeResolve
            (exampleEnv [examplePkg (JObj [(''./a'', JObj [(''import'', JStr ''./a.mjs'')])])
                           JUndefined])
            ''pkg/a'' None (exampleOptions\<lparr>tryEsmOnly := True\<rparr>) False None False False True
            emptyState))
     = [ResolvePackageData ''pkg'' ''/r'', ResolveExportsOrImports ''./a'',
        ResolveExportsOrImports ''./a'', TryFsResolve ''/r/node_modules/pkg/a.mjs'' False]
   \<and> fst (tryNodeResolve
            (exampleEnv [examplePkg (JObj [(''./a'', JObj [(''worker'', JStr ''./a.mjs'')])])
                           JUndefined])
            ''pkg/a'' None (exampleOptions\<lparr>tryEsmOnly := True\<rparr>) False None False False True
            emptyState)
     = Inl (subpathNotDefined
             (exampleEnv [examplePkg (JObj [(''./a'', JObj [(''worker'', JStr ''./a.mjs'')])])
                            JUndefined])
             None (examplePkg (JObj [(''./a'', JObj [(''worker'', JStr ''./a.mjs'')])]) JUndefined))"
proof -
  let ?P = "examplePkg (JObj [(''./a'', JObj [(''import'', JStr ''./a.mjs'')])]) JUndefined"
  let ?E = "exampleEnv [?P]"
  let ?s0 = "logEvent (ResolvePackageData ''pkg'' ''/r'') emptyState"
  have p: "pkgIdOf ''pkg/a'' = ''pkg''" and d: "isDeepImport ''pkg/a''"
    and u: "unresolvedIdOf ''pkg/a'' = ''./a''"
    by code_simp+
  have h1: "chooseBasedir ?E (pkgIdOf ''pkg/a'') None exampleOptions emptyState = (''/r'', emptyState)"
    by (simp add: chooseBasedir_def includesOpt_def exampleOptions_def)
  have h2: "resolvePackageData ?E (pkgIdOf ''pkg/a'') ''/r'' (preserveSymlinks exampleOptions)
            = Some ?P"
    unfolding p
    by (simp add: exampleEnv_def exampleResolvePackageData_def firstSome_def ancestorDirs_def
          segments_def joinSegs_def examplePkg_def List.map_filter_def)
  have t: "truthy (exports (data ?P))" and ob: "isObject (exports (data ?P))"
    and na: "\<not> isArray (exports (data ?P))"
    by code_simp+
  have m: "\<not> truthyStr (getResolvedCache ?P ?s0 ''./a'' False)"
    unfolding getResolvedCache_logEvent by code_simp
  have sp: "splitFileAndPostfix ?E ''./a'' = (''./a'', [])"
    by code_simp
  have r: "resolveExportsOrImports ?E (data ?P) ''./a'' exampleOptions False = Inr None"
    by code_simp
  have h3: "resolveId ?E (isDeepImport ''pkg/a'') (unresolvedIdOf ''pkg/a'') ?P False exampleOptions
              (logEvent (ResolvePackageData (pkgIdOf ''pkg/a'') ''/r'') emptyState)
            = (Inl (subpathNotDefined ?E None ?P), logEvent (ResolveExportsOrImports ''./a'') ?s0)"
    unfolding p u using d ob na r
    by (simp add: resolveId_def resolveDeepImport_exports [OF t m sp])
  have no: "\<not> tryEsmOnly exampleOptions"
    by code_simp
  have c1: "tryNodeResolve ?E ''pkg/a'' None exampleOptions False None False False True emptyState
            = (Inl (subpathNotDefined ?E None ?P), logEvent (ResolveExportsOrImports ''./a'') ?s0)"
    unfolding first_error_and_retry [OF h1 h2 h3] using no by simp
  have c3: "fst (tryNodeResolve ?E ''pkg/a'' None (exampleOptions\<lparr>tryEsmOnly := True\<rparr>)
                   False None False False True emptyState)
     = Inr (Some \<lparr>moduleId = ''/r/node_modules/pkg/a.mjs'', moduleSideEffects = None,
                  external = False\<rparr>)"
    by code_simp
  have c4: "trace (snd (tryNodeResolve ?E ''pkg/a'' None (exampleOptions\<lparr>tryEsmOnly := True\<rparr>)
                   False None False False True emptyState))
     = [ResolvePackageData ''pkg'' ''/r'', ResolveExportsOrImports ''./a'',
        ResolveExportsOrImports ''./a'', TryFsResolve ''/r/node_modules/pkg/a.mjs'' False]"
    by code_simp
  have c5: "fst (tryNodeResolve
            (exampleEnv [examplePkg (JObj [(''./a'', JObj [(''worker'', JStr ''./a.mjs'')])])
                           JUndefined])
            ''pkg/a'' None (exampleOptions\<lparr>tryEsmOnly := True\<rparr>) False None False False True
            emptyState)
     = Inl (subpathNotDefined
             (exampleEnv [examplePkg (JObj [(''./a'', JObj [(''worker'', JStr ''./a.mjs'')])])
                            JUndefined])
             None (examplePkg (JObj [(''./a'', JObj [(''worker'', JStr ''./a.mjs'')])]) JUndefined))"
    by code_simp
  show ?thesis
    by (intro conjI) (rule c1 no c3 c4 c5)+
qed

section \<open>Exports field and browser field\<close>

text \<open>
  C7. In a deep-import resolution of a package whose exports field is set (truthy,
  as every string, object or array that an exports field can hold is), the browser-field
  mapper is never called, whatever the target and the browser field are: the call adds no
  \<open>MapWithBrowserField\<close> event, and its result and final state are the same under any
  other mapper.
\<close>

theorem exports_field_excludes_browser_field:
  assumes "truthy (exports (data pkg))"
  shows "filter isMapWithBrowserField
           (newEvents s (snd (resolveDeepImport env ident pkg targetWeb opts s))) = []
         \<and> resolveDeepImport (env\<lparr>mapWithBrowserField := f\<rparr>) ident pkg targetWeb opts s
           = resolveDeepImport env ident pkg targetWeb opts s"
proof (cases "truthyStr (getResolvedCache pkg s ident targetWeb)")
  case True
  then show ?thesis
    by (simp add: resolveDeepImport_hit newEvents_same)
next
  case False
  obtain fl pf where sp: "splitFileAndPostfix env ident = (fl, pf)"
    by (cases "splitFileAndPostfix env ident")
  then have sp': "splitFileAndPostfix (env\<lparr>mapWithBrowserField := f\<rparr>) ident = (fl, pf)"
    by simp
  have ev: "filter isMapWithBrowserField
           (newEvents s (snd (resolveDeepImport env ident pkg targetWeb opts s))) = []"
    unfolding resolveDeepImport_exports [OF assms False sp]
    by (simp add: newEvents_same newEvents_logEvent newEvents_resolveRelativeId_logEvent
          split: sum.splits option.splits)
  have eq: "resolveDeepImport (env\<lparr>mapWithBrowserField := f\<rparr>) ident pkg targetWeb opts s
           = resolveDeepImport env ident pkg targetWeb opts s"
    unfolding resolveDeepImport_exports [OF assms False sp]
      resolveDeepImport_exports [OF assms False sp']
    by (simp add: resolveRelativeId_mapper subpathNotDefined_def
          split: sum.splits option.splits)
  from ev eq show ?thesis ..
qed

theorem exports_field_excludes_browser_field_witness:
  "truthy (exports (data (examplePkg (JObj [(''./a'', JStr ''./a.js'')]) (JObj [(''./a'', JBool False)]))))
   \<and> isObject (browser (data (examplePkg (JObj [(''./a'', JStr ''./a.js'')]) (JObj [(''./a'', JBool False)]))))
   \<and> filter isMapWithBrowserField
        (newEvents emptyState
           (snd (resolveDeepImport (exampleEnv []) ''./a''
                   (examplePkg (JObj [(''./a'', JStr ''./a.js'')]) (JObj [(''./a'', JBool False)]))
                   True exampleOptions emptyState))) = []
   \<and> newEvents emptyState
        (snd (resolveDeepImport (exampleEnv []) ''./a''
                (examplePkg (JObj [(''./a'', JStr ''./a.js'')]) (JObj [(''./a'', JBool False)]))
                True exampleOptions emptyState))
      = [ResolveExportsOrImports ''./a'', TryFsResolve ''/r/node_modules/pkg/a.js'' False]
   \<and> fst (resolveDeepImport (exampleEnv []) ''./a''
             (examplePkg (JObj [(''./a'', JStr ''./a.js'')]) (JObj [(''./a'', JBool False)]))
             True exampleOptions emptyState)
      = Inr (Some ''/r/node_modules/pkg/a.js'')
   \<and> fst (resolveDeepImport (exampleEnv []) ''./a''
             (examplePkg JUndefined (JObj [(''./a'', JBool False)]))
             True exampleOptions emptyState)
      = Inr (Some ''__vite-browser-external'')"
proof -
  let ?P = "examplePkg (JObj [(''./a'', JStr ''./a.js'')]) (JObj [(''./a'', JBool False)])"
  have h: "truthy (exports (data ?P))"
    by code_simp
  have b: "isObject (browser (data ?P))"
    by code_simp
  have c1: "filter isMapWithBrowserField
        (newEvents emptyState
           (snd (resolveDeepImport (exampleEnv []) ''./a'' ?P True exampleOptions emptyState))) = []"
    by (rule exports_field_excludes_browser_field [OF h, THEN conjunct1])
  have c2: "newEvents emptyState
        (snd (resolveDeepImport (exampleEnv []) ''./a'' ?P True exampleOptions emptyState))
      = [ResolveExportsOrImports ''./a'', TryFsResolve ''/r/node_modules/pkg/a.js'' False]"
    by code_simp
  have c3: "fst (resolveDeepImport (exampleEnv []) ''./a'' ?P True exampleOptions emptyState)
      = Inr (Some ''/r/node_modules/pkg/a.js'')"
    by code_simp
  have c4: "fst (resolveDeepImport (exampleEnv []) ''./a''
             (examplePkg JUndefined (JObj [(''./a'', JBool False)]))
             True exampleOptions emptyState)
      = Inr (Some ''__vite-browser-external'')"
    by code_simp
  show ?thesis
    by (intro conjI) (rule h b c1 c2 c3 c4)+
qed

section \<open>Index fallback\<close>

text \<open>
  C8. \<open>resolveDeepImport\<close> calls the filesystem resolver with \<open>tryIndex\<close> equal
  to the absence of the exports field and with no other \<open>tryIndex\<close>: its result and
  final state are the same under every resolver that agrees with the given one at that
  value of \<open>tryIndex\<close>, whatever it answers at the other. So the index fallback is on
  exactly when the package has no exports field, and a package that declares one never
  gets it. The lookups recorded in the trace carry the same flag.
\<close>

theorem index_fallback_iff_no_exports_field:
  assumes "\<forall>p ops tw. f p ops (\<not> truthy (exports (data pkg))) tw
                       = tryFsResolve env p ops (\<not> truthy (exports (data pkg))) tw"
  shows "resolveDeepImport (env\<lparr>tryFsResolve := f\<rparr>) ident pkg targetWeb opts s
           = resolveDeepImport env ident pkg targetWeb opts s
         \<and> list_all (\<lambda>tryIndex. tryIndex = (\<not> truthy (exports (data pkg))))
             (tryIndexFlags
                (newEvents s (snd (resolveDeepImport env ident pkg targetWeb opts s))))"
proof
  have rr: "\<And>rel s' tw. resolveRelativeId (env\<lparr>tryFsResolve := f\<rparr>) ident pkg tw opts rel s'
                          = resolveRelativeId env ident pkg tw opts rel s'"
    using assms by (intro resolveRelativeId_tryFsResolve) simp
  show "resolveDeepImport (env\<lparr>tryFsResolve := f\<rparr>) ident pkg targetWeb opts s
           = resolveDeepImport env ident pkg targetWeb opts s"
  proof (cases "truthyStr (getResolvedCache pkg s ident targetWeb)")
    case True
    then show ?thesis
      by (simp add: resolveDeepImport_hit)
  next
    case False
    obtain fl pf where sp: "splitFileAndPostfix env ident = (fl, pf)"
      by (cases "splitFileAndPostfix env ident")
    then have sp': "splitFileAndPostfix (env\<lparr>tryFsResolve := f\<rparr>) ident = (fl, pf)"
      by simp
    show ?thesis
    proof (cases "truthy (exports (data pkg))")
      case True
      show ?thesis
        unfolding resolveDeepImport_exports [OF True False sp]
          resolveDeepImport_exports [OF True False sp']
        by (simp add: rr subpathNotDefined_def split: sum.splits option.splits)
    next
      case nex: False
      show ?thesis
        unfolding resolveDeepImport_no_exports [OF nex False sp]
          resolveDeepImport_no_exports [OF nex False sp']
        by (simp add: rr split: browserMapped.splits)
    qed
  qed
next
  show "list_all (\<lambda>tryIndex. tryIndex = (\<not> truthy (exports (data pkg))))
          (tryIndexFlags
             (newEvents s (snd (resolveDeepImport env ident pkg targetWeb opts s))))"
  proof (cases "truthyStr (getResolvedCache pkg s ident targetWeb)")
    case True
    then show ?thesis
      by (simp add: resolveDeepImport_hit newEvents_same)
  next
    case False
    obtain fl pf where sp: "splitFileAndPostfix env ident = (fl, pf)"
      by (cases "splitFileAndPostfix env ident")
    show ?thesis
    proof (cases "truthy (exports (data pkg))")
      case True
      show ?thesis
        unfolding resolveDeepImport_exports [OF True False sp]
        by (simp add: newEvents_same newEvents_logEvent newEvents_resolveRelativeId_logEvent
              split: sum.splits option.splits)
    next
      case nex: False
      show ?thesis
        unfolding resolveDeepImport_no_exports [OF nex False sp]
        by (simp add: newEvents_same newEvents_logEvent newEvents_resolveRelativeId_logEvent
              newEvents_resolveRelativeId newEvents_caches
              split: browserMapped.splits)
    qed
  qed
qed

theorem index_fallback_iff_no_exports_field_witness:
  "(\<forall>p ops tw.
      exampleTryFsResolveAt False p ops
        (\<not> truthy (exports (data (examplePkg (JObj [(''./lib'', JStr ''./lib'')]) JUndefined)))) tw
      = tryFsResolve (exampleEnv []) p ops
          (\<not> truthy (exports (data (examplePkg (JObj [(''./lib'', JStr ''./lib'')]) JUndefined)))) tw)
   \<and> resolveDeepImport (exampleEnv [] \<lparr>tryFsResolve := exampleTryFsResolveAt False\<rparr>) ''./lib''
        (examplePkg (JObj [(''./lib'', JStr ''./lib'')]) JUndefined) False exampleOptions emptyState
     = resolveDeepImport (exampleEnv []) ''./lib''
         (examplePkg (JObj [(''./lib'', JStr ''./lib'')]) JUndefined) False exampleOptions emptyState
   \<and> fst (resolveDeepImport (exampleEnv [] \<lparr>tryFsResolve := exampleTryFsResolveAt False\<rparr>) ''./lib''
             (examplePkg (JObj [(''./lib'', JStr ''./lib'')]) JUndefined)
             False exampleOptions emptyState)
     = Inr None
   \<and> fst (resolveDeepImport (exampleEnv []) ''./lib''
             (examplePkg (JObj [(''./lib'', JStr ''./lib'')]) JUndefined)
             False exampleOptions emptyState)
     = Inr None
   \<and> tryIndexFlags (newEvents emptyState
        (snd (resolveDeepImport (exampleEnv []) ''./lib''
                (examplePkg (JObj [(''./lib'', JStr ''./lib'')]) JUndefined)
                False exampleOptions emptyState))) = [False]
   \<and> fst (resolveDeepImport (exampleEnv [] \<lparr>tryFsResolve := exampleTryFsResolveAt True\<rparr>) ''./lib''
             (examplePkg JUndefined JUndefined) False exampleOptions emptyState)
     = Inr (Some ''/r/node_modules/pkg/lib/index.js'')
   \<and> fst (resolveDeepImport (exampleEnv []) ''./lib'' (examplePkg JUndefined JUndefined)
             False exampleOptions emptyState)
     = Inr (Some ''/r/node_modules/pkg/lib/index.js'')
   \<and> tryIndexFlags (newEvents emptyState
        (snd (resolveDeepImport (exampleEnv []) ''./lib'' (examplePkg JUndefined JUndefined)
                False exampleOptions emptyState))) = [True]"
proof -
  let ?P = "examplePkg (JObj [(''./lib'', JStr ''./lib'')]) JUndefined"
  have t: "truthy (exports (data ?P))"
    by code_simp
  have h: "\<forall>p ops tw.
      exampleTryFsResolveAt False p ops (\<not> truthy (exports (data ?P))) tw
      = tryFsResolve (exampleEnv []) p ops (\<not> truthy (exports (data ?P))) tw"
    using t by (simp add: exampleTryFsResolveAt_def exampleEnv_def)
  have c2: "resolveDeepImport (exampleEnv [] \<lparr>tryFsResolve := exampleTryFsResolveAt False\<rparr>) ''./lib''
        ?P False exampleOptions emptyState
     = resolveDeepImport (exampleEnv []) ''./lib'' ?P False exampleOptions emptyState"
    using index_fallback_iff_no_exports_field
            [where f = "exampleTryFsResolveAt False" and env = "exampleEnv []" and pkg = ?P,
             OF h, THEN conjunct1]
    by simp
  have c3: "fst (resolveDeepImport (exampleEnv [] \<lparr>tryFsResolve := exampleTryFsResolveAt False\<rparr>)
                   ''./lib'' ?P False exampleOptions emptyState) = Inr None"
    by code_simp
  have c4: "fst (resolveDeepImport (exampleEnv []) ''./lib'' ?P False exampleOptions emptyState)
            = Inr None"
    by code_simp
  have c5: "tryIndexFlags (newEvents emptyState
        (snd (resolveDeepImport (exampleEnv []) ''./lib'' ?P False exampleOptions emptyState)))
        = [False]"
    by code_simp
  have c6: "fst (resolveDeepImport (exampleEnv [] \<lparr>tryFsResolve := exampleTryFsResolveAt True\<rparr>)
                   ''./lib'' (examplePkg JUndefined JUndefined) False exampleOptions emptyState)
     = Inr (Some ''/r/node_modules/pkg/lib/index.js'')"
    by code_simp
  have c7: "fst (resolveDeepImport (exampleEnv []) ''./lib'' (examplePkg JUndefined JUndefined)
             False exampleOptions emptyState)
     = Inr (Some ''/r/node_modules/pkg/lib/index.js'')"
    by code_simp
  have c8: "tryIndexFlags (newEvents emptyState
        (snd (resolveDeepImport (exampleEnv []) ''./lib'' (examplePkg JUndefined JUndefined)
                False exampleOptions emptyState))) = [True]"
    by code_simp
  show ?thesis
    by (intro conjI) (rule h c2 c3 c4 c5 c6 c7 c8)+
qed

section \<open>The base directory of the package lookup\<close>

text \<open>
  C9. When the package id extracted from the specifier is in the dedupe list,
  the base directory is the project root, whatever the importer is (absent, relative,
  absolute, existing or not): \<open>tryNodeResolve\<close> is the lookup and resolution from the
  root, and no existence check is made on the way to it.
\<close>

theorem dedupe_uses_project_root:
  assumes "dedupe opts = Some d" and "pkgIdOf ident \<in> set d"
  shows "chooseBasedir env (pkgIdOf ident) importer opts s = (root opts, s)
         \<and> tryNodeResolve env ident importer opts targetWeb depsOpt ssr externalize
              allowLinkedExternal s
           = resolveFromBasedir env ident importer opts targetWeb depsOpt ssr externalize
               allowLinkedExternal (root opts) s"
proof -
  from assms have inc: "includesOpt (dedupe opts) (pkgIdOf ident)"
    by (simp add: includesOpt_def)
  then have cb: "chooseBasedir env (pkgIdOf ident) importer opts s = (root opts, s)"
    by (simp add: chooseBasedir_def)
  then show ?thesis
    by (simp add: tryNodeResolve_def)
qed

theorem dedupe_uses_project_root_witness:
  "dedupe (exampleOptions\<lparr>dedupe := Some [''pkg'']\<rparr>) = Some [''pkg'']
   \<and> pkgIdOf ''pkg/a'' \<in> set [''pkg'']
   \<and> existsSync (exampleEnv [examplePkg JUndefined JUndefined]) ''/r/node_modules/consumer/index.js''
   \<and> chooseBasedir (exampleEnv [examplePkg JUndefined JUndefined]) (pkgIdOf ''pkg/a'')
        (Some ''/r/node_modules/consumer/index.js'')
        (exampleOptions\<lparr>dedupe := Some [''pkg'']\<rparr>) emptyState = (''/r'', emptyState)
   \<and> trace (snd (tryNodeResolve (exampleEnv [examplePkg JUndefined JUndefined]) ''pkg/a''
        (Some ''/r/node_modules/consumer/index.js'')
        (exampleOptions\<lparr>dedupe := Some [''pkg'']\<rparr>) False None False False True emptyState))
      = [ResolvePackageData ''pkg'' ''/r'', TryFsResolve ''/r/node_modules/pkg/a'' True]"
proof -
  have h1: "dedupe (exampleOptions\<lparr>dedupe := Some [''pkg'']\<rparr>) = Some [''pkg'']"
    by simp
  have h2: "pkgIdOf ''pkg/a'' \<in> set [''pkg'']"
    by code_simp
  have h3: "existsSync (exampleEnv [examplePkg JUndefined JUndefined]) ''/r/node_modules/consumer/index.js''"
    by code_simp
  have h4: "root (exampleOptions\<lparr>dedupe := Some [''pkg'']\<rparr>) = ''/r''"
    by (simp add: exampleOptions_def)
  have h5: "trace (snd (resolveFromBasedir (exampleEnv [examplePkg JUndefined JUndefined]) ''pkg/a''
        (Some ''/r/node_modules/consumer/index.js'')
        (exampleOptions\<lparr>dedupe := Some [''pkg'']\<rparr>) False None False False True ''/r'' emptyState))
      = [ResolvePackageData ''pkg'' ''/r'', TryFsResolve ''/r/node_modules/pkg/a'' True]"
    by code_simp
  from dedupe_uses_project_root [OF h1 h2, of "exampleEnv [examplePkg JUndefined JUndefined]"
      "Some ''/r/node_modules/consumer/index.js''" emptyState False None False False True]
  show ?thesis using h1 h2 h3 h4 h5 by simp
qed



end
